theory Spec2Isabelle
  imports Complex_Main "HOL-Library.Char_ord" "HOL-Library.List_Lexorder"
begin

section \<open>Angle arithmetic (bitcoin/calculate_aspects.py)\<close>

text \<open>
  Longitudes and angles are Python floats in the source. In this section, in the matcher
  and in the exact-date scan they are modelled as \<^typ>\<open>real\<close>: the properties of
  those parts are statements about the arithmetic the code writes down, not about
  rounding. The exact-time solver and the scanner are modelled with rounding, see
  the section on floating-point arithmetic.
\<close>

text \<open>
  \<^verbatim>\<open>angular_distance(lon1, lon2)\<close>, lines 116-121 (the same body is in
  interactive_gann_aspect_calculator.py, lines 35-39):
  \<^verbatim>\<open>diff = abs(lon1 - lon2); if diff > 180: diff = 360 - diff; return diff\<close>
\<close>

definition angular_distance :: "real \<Rightarrow> real \<Rightarrow> real" where
  "angular_distance lon1 lon2 =
     (let diff = \<bar>lon1 - lon2\<bar> in if diff > 180 then 360 - diff else diff)"

text \<open>
  \<^verbatim>\<open>angular_distance_both_arcs(lon1, lon2)\<close>, lines 123-128; the method
  \<^verbatim>\<open>AspectCalculator.calculate_angle_between_planets\<close>, lines 417-422, has the
  same body. The result is the pair (short_arc, long_arc).
\<close>

definition angular_distance_both_arcs :: "real \<Rightarrow> real \<Rightarrow> real \<times> real" where
  "angular_distance_both_arcs lon1 lon2 =
     (let diff = \<bar>lon1 - lon2\<bar>;
          short_arc = (if diff \<le> 180 then diff else 360 - diff);
          long_arc = (if diff > 180 then diff else 360 - diff)
      in (short_arc, long_arc))"

definition calculate_angle_between_planets :: "real \<Rightarrow> real \<Rightarrow> real \<times> real" where
  "calculate_angle_between_planets planet1_lon planet2_lon =
     (let diff = \<bar>planet1_lon - planet2_lon\<bar>;
          short_arc = (if diff \<le> 180 then diff else 360 - diff);
          long_arc = (if diff > 180 then diff else 360 - diff)
      in (short_arc, long_arc))"

text \<open>\<^verbatim>\<open>is_aspect_within_orb(angle, target_angle, orb)\<close>, lines 130-135 and 187-192.\<close>

definition is_aspect_within_orb :: "real \<Rightarrow> real \<Rightarrow> real \<Rightarrow> bool" where
  "is_aspect_within_orb angle target_angle orb =
     (let diff = \<bar>angle - target_angle\<bar>;
          diff' = (if diff > 180 then 360 - diff else diff)
      in diff' \<le> orb)"

section \<open>Price patterns (pattern_demo.py)\<close>

text \<open>
  Prices are Python ints. \<^verbatim>\<open>len(str(price))\<close> is the number of decimal digits,
  plus one for the minus sign of a negative number.
\<close>

fun digit_count :: "nat \<Rightarrow> nat" where
  "digit_count n = (if n < 10 then 1 else Suc (digit_count (n div 10)))"

definition str_len :: "int \<Rightarrow> nat" where
  "str_len price =
     (if price < 0 then Suc (digit_count (nat (- price))) else digit_count (nat price))"

definition priority_patterns :: "int list" where
  "priority_patterns = [45, 90, 135, 180, 225, 270, 315, 360]"

text \<open>\<^verbatim>\<open>is_bold_pattern(price)\<close>, lines 3-32. Python's \<^verbatim>\<open>%\<close> and \<^verbatim>\<open>//\<close> on ints
  are floor division, as \<open>mod\<close> and \<open>div\<close> on \<^typ>\<open>int\<close> are.\<close>

definition is_bold_pattern :: "int \<Rightarrow> bool" where
  "is_bold_pattern price =
     (let price_len = str_len price in
      if price \<in> set priority_patterns then True
      else if price_len = 5 \<and> price mod 100 = 0 \<and> (price div 100) mod 45 = 0
                \<and> price div 100 > 0 then True
      else if price_len = 4 \<and> price mod 100 = 0 \<and> (price div 100) mod 45 = 0
                \<and> price div 100 > 0 then True
      else if price_len = 3 \<and> price mod 45 = 0 \<and> price > 0 then True
      else False)"

text \<open>\<^verbatim>\<open>is_short_term_pattern(price)\<close>, lines 34-55.\<close>

definition is_short_term_pattern :: "int \<Rightarrow> bool" where
  "is_short_term_pattern price =
     (let price_len = str_len price in
      if price_len = 5 \<and> (price mod 1000) mod 45 = 0 \<and> price mod 1000 > 0
           \<and> ((price div 100) mod 45 \<noteq> 0 \<or> price div 100 = 0) then True
      else if price_len = 4 \<and> (price mod 1000) mod 45 = 0 \<and> price mod 1000 > 0
           \<and> ((price div 100) mod 45 \<noteq> 0 \<or> price div 100 = 0) then True
      else False)"

text \<open>\<^verbatim>\<open>is_regular_45_multiple(price)\<close>, lines 57-75.\<close>

definition is_regular_45_multiple :: "int \<Rightarrow> bool" where
  "is_regular_45_multiple price =
     (if price mod 45 \<noteq> 0 \<or> price \<le> 0 then False
      else if price \<in> set priority_patterns then False
      else if is_bold_pattern price then False
      else if is_short_term_pattern price then False
      else True)"

section \<open>Aspect matcher\<close>

text \<open>
  \<^verbatim>\<open>AspectCalculator.get_aspect_type(short_arc, long_arc)\<close>, bitcoin/calculate_aspects.py
  lines 424-436. \<^verbatim>\<open>self.aspects\<close> is a dict from aspect name to angle, iterated in
  insertion order; it is the parameter \<open>catalog\<close>, an association list in that order,
  and \<^verbatim>\<open>self.orb\<close> is the parameter \<open>orb\<close>. The loop returns at the first
  entry whose test passes and the empty string after the last one.
\<close>

fun get_aspect_type :: "(string \<times> real) list \<Rightarrow> real \<Rightarrow> real \<Rightarrow> real \<Rightarrow> string" where
  "get_aspect_type [] orb short_arc long_arc = ''''"
| "get_aspect_type ((aspect_name, aspect_angle) # rest) orb short_arc long_arc =
     (if aspect_name = ''Gann74'' then
        (if \<bar>long_arc - (360 - aspect_angle)\<bar> \<le> orb then aspect_name
         else get_aspect_type rest orb short_arc long_arc)
      else
        (if \<bar>short_arc - aspect_angle\<bar> \<le> orb then aspect_name
         else get_aspect_type rest orb short_arc long_arc))"

text \<open>
  custom_gann_aspect_finder.py, lines 152-164, has two loops of the same shape, one after
  the other: the standard aspects against the short arc, then the Gann angles against the
  long arc. \<open>first_within_orb\<close> is one such loop; None stands for falling out of it.
\<close>

fun first_within_orb :: "(string \<times> real) list \<Rightarrow> real \<Rightarrow> real \<Rightarrow> string option" where
  "first_within_orb [] orb arc = None"
| "first_within_orb ((aspect_name, aspect_angle) # rest) orb arc =
     (if \<bar>arc - aspect_angle\<bar> \<le> orb then Some aspect_name
      else first_within_orb rest orb arc)"

definition get_aspect_type_custom ::
  "(string \<times> real) list \<Rightarrow> (string \<times> real) list \<Rightarrow> real \<Rightarrow> real \<Rightarrow> real \<Rightarrow> string" where
  "get_aspect_type_custom standard_aspects gann_angles orb short_arc long_arc =
     (case first_within_orb standard_aspects orb short_arc of
        Some aspect_name \<Rightarrow> aspect_name
      | None \<Rightarrow>
          (case first_within_orb gann_angles orb long_arc of
             Some aspect_name \<Rightarrow> aspect_name
           | None \<Rightarrow> ''''))"

text \<open>
  The matcher as the specification words it: the first definition in catalog order that
  passes its orb test, and the empty string when none does.
\<close>

definition first_matching :: "('d \<Rightarrow> bool) \<Rightarrow> ('d \<Rightarrow> string) \<Rightarrow> 'd list \<Rightarrow> string" where
  "first_matching passes name_of catalog =
     (case find passes catalog of None \<Rightarrow> '''' | Some d \<Rightarrow> name_of d)"

text \<open>The orb test of each matcher on one catalog entry.\<close>

definition orb_test :: "real \<Rightarrow> real \<Rightarrow> real \<Rightarrow> string \<times> real \<Rightarrow> bool" where
  "orb_test orb short_arc long_arc d =
     (if fst d = ''Gann74'' then \<bar>long_arc - (360 - snd d)\<bar> \<le> orb
      else \<bar>short_arc - snd d\<bar> \<le> orb)"

definition orb_test_custom :: "real \<Rightarrow> real \<Rightarrow> real \<Rightarrow> bool \<times> string \<times> real \<Rightarrow> bool" where
  "orb_test_custom orb short_arc long_arc d =
     (if fst d then \<bar>long_arc - snd (snd d)\<bar> \<le> orb
      else \<bar>short_arc - snd (snd d)\<bar> \<le> orb)"

definition tagged_catalog ::
  "(string \<times> real) list \<Rightarrow> (string \<times> real) list \<Rightarrow> (bool \<times> string \<times> real) list" where
  "tagged_catalog standard_aspects gann_angles =
     map (Pair False) standard_aspects @ map (Pair True) gann_angles"

section \<open>Floating-point arithmetic\<close>

text \<open>
  The exact-time solver halves an interval of Julian days a hundred times, so the instant
  it returns depends on how Python rounds. Its arithmetic, and the scanner's, is modelled
  in binary64: a double is a real \<open>m * 2^e\<close> with \<open>\<bar>m\<bar> < 2^53\<close>, and an operation
  returns the double nearest to its exact result, a tie going to the even mantissa. The
  exponent is not bounded: overflow and the subnormal range (below \<open>2^-1022\<close>) are not
  modelled.

  \<open>round_half_even x\<close> is the integer nearest to \<open>x\<close>, a tie going to the even one.
  \<open>binade x\<close> is the exponent \<open>e\<close> with \<open>2^e \<le> \<bar>x\<bar> < 2^(e+1)\<close>; the doubles of that
  binade are the multiples of \<open>ulp x = 2^(e-52)\<close>.
\<close>

definition round_half_even :: "real \<Rightarrow> int" where
  "round_half_even x =
     (let f = \<lfloor>x\<rfloor>; d = x - of_int f
      in if d < 1 / 2 then f else if d > 1 / 2 then f + 1 else if even f then f else f + 1)"

definition binade :: "real \<Rightarrow> int" where
  "binade x = \<lfloor>log 2 \<bar>x\<bar>\<rfloor>"

definition ulp :: "real \<Rightarrow> real" where
  "ulp x = 2 powr (of_int (binade x) - 52)"

definition double_round :: "real \<Rightarrow> real" where
  "double_round x =
     (if x = 0 then 0
      else of_int (round_half_even (x / 2 powr (of_int (binade x) - 52)))
             * 2 powr (of_int (binade x) - 52))"

text \<open>
  A value of the model is a Python float when rounding leaves it unchanged. \<^verbatim>\<open>x + y\<close>,
  \<^verbatim>\<open>x - y\<close> and \<^verbatim>\<open>x / y\<close> on floats; \<^verbatim>\<open>abs\<close>, \<^verbatim>\<open>min\<close> and the comparisons are
  exact. A literal such as \<^verbatim>\<open>0.0001\<close> denotes the double nearest to it.
\<close>

definition is_double :: "real \<Rightarrow> bool" where
  "is_double x = (double_round x = x)"

definition float_add :: "real \<Rightarrow> real \<Rightarrow> real" where
  "float_add x y = double_round (x + y)"

definition float_sub :: "real \<Rightarrow> real \<Rightarrow> real" where
  "float_sub x y = double_round (x - y)"

definition float_div :: "real \<Rightarrow> real \<Rightarrow> real" where
  "float_div x y = double_round (x / y)"

text \<open>
  \<^verbatim>\<open>angular_distance\<close> (lines 116-121) and \<^verbatim>\<open>is_aspect_within_orb\<close> (lines 187-192) as
  they compute on floats.
\<close>

definition float_angular_distance :: "real \<Rightarrow> real \<Rightarrow> real" where
  "float_angular_distance lon1 lon2 =
     (let diff = \<bar>float_sub lon1 lon2\<bar> in if diff > 180 then float_sub 360 diff else diff)"

definition float_is_aspect_within_orb :: "real \<Rightarrow> real \<Rightarrow> real \<Rightarrow> bool" where
  "float_is_aspect_within_orb angle target_angle orb =
     (let diff = \<bar>float_sub angle target_angle\<bar>;
          diff' = (if diff > 180 then float_sub 360 diff else diff)
      in diff' \<le> orb)"

section \<open>Exact-time solver\<close>

text \<open>
  \<^verbatim>\<open>calculate_position(planet_code, jd)\<close>, lines 97-106, asks the Swiss Ephemeris for a
  longitude and returns None when there is no result or the call raises. It is the
  parameter \<open>calculate_position\<close> of the functions below; None is Python's None.

  \<^verbatim>\<open>angle_difference_from_target(jd)\<close>, lines 146-163, the closure inside
  \<^verbatim>\<open>find_exact_aspect_time\<close>. The result None stands for \<^verbatim>\<open>float('inf')\<close>.
\<close>

definition angle_difference_from_target ::
  "('p \<Rightarrow> real \<Rightarrow> real option) \<Rightarrow> 'p \<Rightarrow> 'p \<Rightarrow> real \<Rightarrow> real \<Rightarrow> real option" where
  "angle_difference_from_target calculate_position planet1_code planet2_code target_angle jd =
     (case (calculate_position planet1_code jd, calculate_position planet2_code jd) of
        (Some pos1, Some pos2) \<Rightarrow>
          (let current_angle = float_angular_distance pos1 pos2 in
           if target_angle = 180 then Some \<bar>float_sub current_angle 180\<bar>
           else
             (let diff1 = \<bar>float_sub current_angle target_angle\<bar>;
                  diff2 = \<bar>float_sub current_angle (float_add target_angle 360)\<bar>;
                  diff3 = \<bar>float_sub (float_add current_angle 360) target_angle\<bar>
              in Some (min diff1 (min diff2 diff3))))
      | _ \<Rightarrow> None)"

text \<open>Python's \<^verbatim>\<open><\<close> on floats where None stands for infinity.\<close>

fun float_less :: "real option \<Rightarrow> real option \<Rightarrow> bool" where
  "float_less (Some a) (Some b) = (a < b)"
| "float_less (Some a) None = True"
| "float_less None b = False"

text \<open>\<^verbatim>\<open>mid_diff < 0.0001\<close>, line 177.\<close>

definition below_tolerance :: "real option \<Rightarrow> bool" where
  "below_tolerance mid_diff = float_less mid_diff (Some (double_round (1 / 10000)))"

text \<open>
  The function has two \<^verbatim>\<open>return\<close> statements: line 178 inside the loop, at the
  value \<open>iteration\<close> of the loop variable, and line 185 after the loop. The result
  records which one was taken; \<open>exit_jd\<close> is the value returned.
\<close>

datatype solver_exit = EarlyReturn nat real | CapReturn real

fun exit_jd :: "solver_exit \<Rightarrow> real" where
  "exit_jd (EarlyReturn iteration jd) = jd"
| "exit_jd (CapReturn jd) = jd"

text \<open>\<^verbatim>\<open>(left_jd + right_jd) / 2\<close>, lines 171 and 185: two rounded operations.\<close>

definition float_midpoint :: "real \<Rightarrow> real \<Rightarrow> real" where
  "float_midpoint left_jd right_jd = float_div (float_add left_jd right_jd) 2"

text \<open>
  \<^verbatim>\<open>for iteration in range(100)\<close>, lines 170-183: \<open>n\<close> counts the iterations that
  remain, \<open>iteration\<close> is the loop variable.
\<close>

fun solver_loop :: "(real \<Rightarrow> real option) \<Rightarrow> nat \<Rightarrow> nat \<Rightarrow> real \<Rightarrow> real \<Rightarrow> solver_exit" where
  "solver_loop f 0 iteration left_jd right_jd = CapReturn (float_midpoint left_jd right_jd)"
| "solver_loop f (Suc n) iteration left_jd right_jd =
     (let mid_jd = float_midpoint left_jd right_jd;
          left_diff = f left_jd;
          mid_diff = f mid_jd;
          right_diff = f right_jd
      in if below_tolerance mid_diff then EarlyReturn iteration mid_jd
         else if float_less left_diff right_diff
              then solver_loop f n (Suc iteration) left_jd mid_jd
              else solver_loop f n (Suc iteration) mid_jd right_jd)"

text \<open>
  Lines 166-167: \<^verbatim>\<open>left_jd = start_jd\<close> and \<^verbatim>\<open>right_jd = start_jd + search_days\<close>.
\<close>

definition solve ::
  "('p \<Rightarrow> real \<Rightarrow> real option) \<Rightarrow> 'p \<Rightarrow> 'p \<Rightarrow> real \<Rightarrow> real \<Rightarrow> real \<Rightarrow> solver_exit" where
  "solve calculate_position planet1_code planet2_code target_angle start_jd search_days =
     solver_loop
       (angle_difference_from_target calculate_position planet1_code planet2_code target_angle)
       100 0 start_jd (float_add start_jd search_days)"

definition find_exact_aspect_time ::
  "('p \<Rightarrow> real \<Rightarrow> real option) \<Rightarrow> 'p \<Rightarrow> 'p \<Rightarrow> real \<Rightarrow> real \<Rightarrow> real \<Rightarrow> real" where
  "find_exact_aspect_time calculate_position planet1_code planet2_code target_angle start_jd
       search_days =
     exit_jd (solve calculate_position planet1_code planet2_code target_angle start_jd
                search_days)"

text \<open>
  The search interval after \<open>k\<close> iterations that did not return: one iteration
  replaces an endpoint by the midpoint (lines 180-183).
\<close>

definition midpoint_of :: "real \<times> real \<Rightarrow> real" where
  "midpoint_of iv = float_midpoint (fst iv) (snd iv)"

definition narrow :: "(real \<Rightarrow> real option) \<Rightarrow> real \<times> real \<Rightarrow> real \<times> real" where
  "narrow f iv =
     (if float_less (f (fst iv)) (f (snd iv)) then (fst iv, midpoint_of iv)
      else (midpoint_of iv, snd iv))"

definition interval_after :: "(real \<Rightarrow> real option) \<Rightarrow> nat \<Rightarrow> real \<times> real \<Rightarrow> real \<times> real" where
  "interval_after f k iv = (narrow f ^^ k) iv"

definition bisection_interval ::
  "('p \<Rightarrow> real \<Rightarrow> real option) \<Rightarrow> 'p \<Rightarrow> 'p \<Rightarrow> real \<Rightarrow> real \<Rightarrow> real \<Rightarrow> nat \<Rightarrow> real \<times> real" where
  "bisection_interval calculate_position planet1_code planet2_code target_angle start_jd
       search_days k =
     interval_after
       (angle_difference_from_target calculate_position planet1_code planet2_code target_angle)
       k (start_jd, float_add start_jd search_days)"

text \<open>
  The left end after \<open>k\<close> iterations that each took the branch of line 183
  (\<^verbatim>\<open>left_jd = mid_jd\<close>), the right end staying at \<open>right_jd\<close>.
\<close>

definition left_end :: "real \<Rightarrow> real \<Rightarrow> nat \<Rightarrow> real" where
  "left_end left_jd right_jd k = ((\<lambda>l. float_midpoint l right_jd) ^^ k) left_jd"

text \<open>
  Position providers used as concrete inputs. \<open>dip_provider\<close> has the Sun at 0 degrees
  and the Moon at \<open>180 - 2^-11\<close> degrees at jd 0, at \<open>180 - 2^-10\<close> degrees at jd 1/2 and
  at 179 degrees at any other instant.
\<close>

definition unavailable_provider :: "string \<Rightarrow> real \<Rightarrow> real option" where
  "unavailable_provider planet jd = None"

definition dip_provider :: "string \<Rightarrow> real \<Rightarrow> real option" where
  "dip_provider planet jd =
     (if planet = ''Sun'' then Some 0
      else if jd = 0 then Some (368639 / 2048)
      else if jd = 1 / 2 then Some (184319 / 1024)
      else Some 179)"

definition opposed_provider :: "string \<Rightarrow> real \<Rightarrow> real option" where
  "opposed_provider planet jd = (if planet = ''Sun'' then Some 0 else Some 180)"

section \<open>Deduplication window (AspectCalculator.find_exact_aspect_dates)\<close>

text \<open>
  Python exceptions that the modelled code can raise.
\<close>

datatype py_error = TypeError | KeyError | ZeroDivisionError

text \<open>
  The dict that \<^verbatim>\<open>find_aspects_for_date\<close> appends for a matching pair, lines 488-496.
  Dates are \<^verbatim>\<open>ephem.Date\<close> values, floats counting days, modelled as reals.
\<close>

record found_aspect =
  date :: real
  planet1 :: string
  planet2 :: string
  aspect :: string
  angle :: real
  planet1_lon :: real
  planet2_lon :: real

text \<open>
  One entry of \<^verbatim>\<open>aspect_windows\<close>, lines 611-615.
\<close>

record window =
  best_precision :: real
  best_aspect :: found_aspect
  last_seen :: real

type_synonym aspect_key = "(string \<times> string) \<times> string"

text \<open>
  \<^verbatim>\<open>tuple(sorted([planet1, planet2]))\<close>: Python compares strings by code point,
  lexicographically, as the order on \<^typ>\<open>string\<close> does.
\<close>

definition sorted_pair :: "string \<Rightarrow> string \<Rightarrow> string \<times> string" where
  "sorted_pair a b = (if b < a then (b, a) else (a, b))"

definition aspect_key_of :: "found_aspect \<Rightarrow> aspect_key" where
  "aspect_key_of a = (sorted_pair (planet1 a) (planet2 a), aspect a)"

text \<open>
  \<^verbatim>\<open>d[k] = v\<close> on a Python dict kept as an association list in insertion order: an
  existing key keeps its place, a new key goes to the end.
\<close>

fun dict_set :: "'k \<Rightarrow> 'v \<Rightarrow> ('k \<times> 'v) list \<Rightarrow> ('k \<times> 'v) list" where
  "dict_set k v [] = [(k, v)]"
| "dict_set k v ((k', v') # kvs) =
     (if k' = k then (k, v) # kvs else (k', v') # dict_set k v kvs)"

text \<open>
  The state of the scan in \<^verbatim>\<open>find_exact_aspect_dates\<close>: \<^verbatim>\<open>aspect_windows\<close> and
  \<^verbatim>\<open>exact_aspects\<close>. \<open>track_aspect\<close> is the body of
  \<^verbatim>\<open>for aspect in aspects\<close>, lines 587-622, at the scan instant \<open>current_date\<close>.
  \<^verbatim>\<open>self.aspects[aspect['aspect']]\<close> raises KeyError for a name that is not in the
  catalog. The test \<^verbatim>\<open>if window['best_aspect']\<close> is on a non-empty dict and always
  passes.
\<close>

type_synonym tracker = "(aspect_key \<times> window) list \<times> found_aspect list"

definition track_aspect ::
  "(string \<times> real) list \<Rightarrow> tracker \<Rightarrow> real \<Rightarrow> found_aspect \<Rightarrow> py_error + tracker" where
  "track_aspect catalog st current_date a =
     (let aspect_windows = fst st; exact_aspects = snd st;
          aspect_key = aspect_key_of a
      in case map_of catalog (aspect a) of
           None \<Rightarrow> Inl KeyError
         | Some target_angle \<Rightarrow>
             (let angle_precision = \<bar>angle a - target_angle\<bar>;
                  fresh = \<lparr>best_precision = angle_precision, best_aspect = a,
                           last_seen = current_date\<rparr>
              in case map_of aspect_windows aspect_key of
                   Some w \<Rightarrow>
                     if angle_precision < best_precision w then
                       Inr (dict_set aspect_key
                              (w\<lparr>best_precision := angle_precision, best_aspect := a,
                                 last_seen := current_date\<rparr>) aspect_windows,
                            exact_aspects)
                     else if current_date - last_seen w > 30 then
                       Inr (dict_set aspect_key fresh aspect_windows,
                            exact_aspects @ [best_aspect w])
                     else Inr (aspect_windows, exact_aspects)
                 | None \<Rightarrow> Inr (dict_set aspect_key fresh aspect_windows, exact_aspects)))"

text \<open>
  Feeding a sequence of candidates, each at its own date (the scan passes the aspects of
  \<^verbatim>\<open>find_aspects_for_date(current_date)\<close>, whose date is \<open>current_date\<close>).
\<close>

fun track_aspects ::
  "(string \<times> real) list \<Rightarrow> tracker \<Rightarrow> found_aspect list \<Rightarrow> py_error + tracker" where
  "track_aspects catalog st [] = Inr st"
| "track_aspects catalog st (a # rest) =
     (case track_aspect catalog st (date a) a of
        Inl e \<Rightarrow> Inl e
      | Inr st' \<Rightarrow> track_aspects catalog st' rest)"

text \<open>
  Lines 631-634: the best aspect of every window still open is appended, in the order
  the windows were opened.
\<close>

definition flush_windows :: "tracker \<Rightarrow> found_aspect list" where
  "flush_windows st = snd st @ map (\<lambda>kw. best_aspect (snd kw)) (fst st)"

text \<open>
  \<^verbatim>\<open>deduplicate_aspects\<close>, lines 500-568. \<^verbatim>\<open>aspect_tracking\<close> maps a key to the
  date and angle of the last aspect kept for it. \<open>dedup_step\<close> is the loop body,
  \<open>dedup_loop\<close> the loop over the aspects sorted by date (\<^verbatim>\<open>sorted\<close> is stable, as
  \<open>sort_key\<close> is).
\<close>

type_synonym tracking = "aspect_key \<rightharpoonup> real \<times> real"

definition dedup_step ::
  "(string \<times> real) list \<Rightarrow> real \<Rightarrow> found_aspect list \<times> tracking \<Rightarrow> found_aspect
     \<Rightarrow> py_error + found_aspect list \<times> tracking" where
  "dedup_step catalog min_days_between_aspects st a =
     (let deduplicated = fst st; aspect_tracking = snd st;
          planet_pair = sorted_pair (planet1 a) (planet2 a);
          aspect_key = (planet_pair, aspect a);
          current_date = date a;
          keep = Inr (deduplicated @ [a], aspect_tracking(aspect_key \<mapsto> (current_date, angle a)))
      in case aspect_tracking aspect_key of
           None \<Rightarrow> keep
         | Some (last_date, last_angle) \<Rightarrow>
             if current_date - last_date < min_days_between_aspects then
               (case map_of catalog (aspect a) of
                  None \<Rightarrow> Inl KeyError
                | Some target_angle \<Rightarrow>
                    (let last_angle_diff = \<bar>last_angle - target_angle\<bar>;
                         current_angle_diff = \<bar>angle a - target_angle\<bar>
                     in if current_angle_diff < last_angle_diff - 1 / 10 then
                          Inr ([b \<leftarrow> deduplicated.
                                  \<not> (sorted_pair (planet1 b) (planet2 b) = planet_pair
                                     \<and> aspect b = aspect a
                                     \<and> \<bar>date b - last_date\<bar> < 1)] @ [a],
                               aspect_tracking(aspect_key \<mapsto> (current_date, angle a)))
                        else Inr (deduplicated, aspect_tracking)))
             else keep)"

fun dedup_loop ::
  "(string \<times> real) list \<Rightarrow> real \<Rightarrow> found_aspect list \<times> tracking \<Rightarrow> found_aspect list
     \<Rightarrow> py_error + found_aspect list" where
  "dedup_loop catalog min_days st [] = Inr (fst st)"
| "dedup_loop catalog min_days st (a # rest) =
     (case dedup_step catalog min_days st a of
        Inl e \<Rightarrow> Inl e
      | Inr st' \<Rightarrow> dedup_loop catalog min_days st' rest)"

definition deduplicate_aspects ::
  "(string \<times> real) list \<Rightarrow> real \<Rightarrow> found_aspect list \<Rightarrow> py_error + found_aspect list" where
  "deduplicate_aspects catalog min_days_between_aspects aspects =
     (if aspects = [] then Inr aspects
      else dedup_loop catalog min_days_between_aspects ([], Map.empty) (sort_key date aspects))"

text \<open>
  What \<^verbatim>\<open>find_exact_aspect_dates\<close> does with the candidates its scan meets, in scan
  order (lemma \<open>find_exact_aspect_dates_commit\<close>): the windows are fed, flushed (lines
  631-634), and the result goes through \<^verbatim>\<open>deduplicate_aspects\<close> (line 637).
\<close>

definition commit_candidates ::
  "(string \<times> real) list \<Rightarrow> real \<Rightarrow> found_aspect list \<Rightarrow> py_error + found_aspect list" where
  "commit_candidates catalog min_days_between_aspects candidates =
     (case track_aspects catalog ([], []) candidates of
        Inl e \<Rightarrow> Inl e
      | Inr st \<Rightarrow> deduplicate_aspects catalog min_days_between_aspects (flush_windows st))"

text \<open>
  \<^verbatim>\<open>self.aspects\<close> as \<^verbatim>\<open>AspectCalculator.__init__\<close> sets it, lines 368-377.
\<close>

definition aspects_catalog :: "(string \<times> real) list" where
  "aspects_catalog =
     [(''Conjunction'', 0), (''Semisquare'', 45), (''Sextile'', 60), (''Square'', 90),
      (''Trine'', 120), (''Gann109'', 109), (''Opposition'', 180), (''Gann74'', 74)]"

text \<open>
  A candidate used as concrete input: a Jupiter-Saturn conjunction found at date \<open>d\<close>
  with the two longitudes \<open>separation\<close> degrees apart.
\<close>

definition conjunction_at :: "real \<Rightarrow> real \<Rightarrow> found_aspect" where
  "conjunction_at d separation =
     \<lparr>date = d, planet1 = ''Jupiter'', planet2 = ''Saturn'', aspect = ''Conjunction'',
      angle = separation, planet1_lon = 0, planet2_lon = separation\<rparr>"

text \<open>
  \<^verbatim>\<open>angle_precision = abs(aspect['angle'] - target_angle)\<close>, line 591: the quantity the
  window compares, the recorded angle against the catalog angle of the aspect.
\<close>

definition angle_precision :: "real \<Rightarrow> found_aspect \<Rightarrow> real" where
  "angle_precision target_angle a = \<bar>angle a - target_angle\<bar>"

section \<open>Scanner (scan_for_aspects)\<close>

text \<open>
  \<^verbatim>\<open>round(x, 6)\<close>: Python rounds to the nearest multiple of 10^-6, a tie to the even
  one, and returns the double nearest to that decimal.
\<close>

definition py_round :: "real \<Rightarrow> nat \<Rightarrow> real" where
  "py_round x ndigits = double_round (of_int (round_half_even (x * 10 ^ ndigits)) / 10 ^ ndigits)"

text \<open>
  The module begins with \<^verbatim>\<open>import datetime\<close> (line 9) and never binds the name again, so
  in \<^verbatim>\<open>datetime(*current_date[:6])\<close> (lines 222, 247 and 263) the callee is the module
  object. Calling a module raises TypeError, whatever the arguments; \<open>jd\<close> is the Julian
  day whose six calendar components \<^verbatim>\<open>swe.jdut1_to_utc\<close> supplies as arguments. (The
  class further down the file calls \<^verbatim>\<open>datetime.datetime.strptime\<close>, line 655.) No
  \<open>datetime_object\<close> is ever built; the type has the six arguments of the constructor.
\<close>

datatype datetime_object = Datetime_object int int int int int real

definition datetime_call :: "real \<Rightarrow> py_error + datetime_object" where
  "datetime_call jd = Inl TypeError"

text \<open>
  The dict \<^verbatim>\<open>aspect_data\<close> that \<^verbatim>\<open>scan_for_aspects\<close> appends, lines 270-283; field
  \<open>ad_k\<close> is key \<open>k\<close>. The keys 'date' and 'time' are two formats of one calendar
  value, kept as \<open>ad_date_time\<close>.
\<close>

record 'dt aspect_data =
  ad_date_time :: 'dt
  ad_planet1 :: string
  ad_planet2 :: string
  ad_aspect :: string
  ad_aspect_abbrev :: string
  ad_angle :: real
  ad_planet1_lon :: real
  ad_planet2_lon :: real
  ad_description :: string
  ad_exact_jd :: real
  ad_angle_error :: real

text \<open>
  The module-level dict \<^verbatim>\<open>aspects\<close>, lines 36-45, in insertion order: name, angle, orb,
  abbreviation.
\<close>

definition aspects :: "(string \<times> real \<times> real \<times> string) list" where
  "aspects =
     [(''Conjunction'', 0, 1 / 2, ''Conj''), (''Semisquare'', 45, 1 / 2, ''Semi''),
      (''Sextile'', 60, 1, ''Sext''), (''Square'', 90, 1, ''Sq''),
      (''Trine'', 120, 1, ''Trine''), (''Gann109'', 109, 1 / 2, ''G109''),
      (''Opposition'', 180, 1, ''Opp''), (''Gann74'', 74, 1 / 2, ''G74'')]"

text \<open>
  \<^verbatim>\<open>all_planets\<close> and the pairs with \<^verbatim>\<open>i < j\<close>, lines 206-213, in the order the nested
  loops append them.
\<close>

definition all_planets :: "string list" where
  "all_planets = [''Sun'', ''Moon'', ''Mercury'', ''Venus'', ''Mars'', ''Jupiter'', ''Saturn'',
                  ''Uranus'', ''Neptune'', ''Pluto'']"

fun planet_pairs_of :: "'a list \<Rightarrow> ('a \<times> 'a) list" where
  "planet_pairs_of [] = []"
| "planet_pairs_of (planet1_name # rest) = map (Pair planet1_name) rest @ planet_pairs_of rest"

text \<open>
  The body of \<^verbatim>\<open>for aspect_name, aspect_info in aspects.items()\<close>, lines 237-286.

  \<open>calculate_position\<close> is \<^verbatim>\<open>calculate_position(planets[name], jd)\<close>; every name of
  \<^verbatim>\<open>all_planets\<close> is a key of \<^verbatim>\<open>planets\<close>. \<^verbatim>\<open>if exact_jd:\<close> is false only for 0.0.
  \<^verbatim>\<open>angular_distance(exact_pos1, exact_pos2)\<close>, line 252, subtracts its arguments, which
  raises TypeError when one of them is None.
\<close>

definition check_aspect ::
  "(string \<Rightarrow> real \<Rightarrow> real option) \<Rightarrow> real \<Rightarrow> string \<Rightarrow> string
     \<Rightarrow> real \<Rightarrow> string \<times> real \<times> real \<times> string
     \<Rightarrow> py_error + datetime_object aspect_data list" where
  "check_aspect calculate_position current_jd planet1_name planet2_name current_angle entry =
     (let aspect_name = fst entry; target_angle = fst (snd entry);
          orb = fst (snd (snd entry)); abbrev = snd (snd (snd entry))
      in if float_is_aspect_within_orb current_angle target_angle orb then
           (let exact_jd = find_exact_aspect_time calculate_position planet1_name planet2_name
                             target_angle (float_sub current_jd (1 / 2)) 1
            in if exact_jd \<noteq> 0 then
                 (case datetime_call exact_jd of
                    Inl e \<Rightarrow> Inl e
                  | Inr exact_dt \<Rightarrow>
                      (case (calculate_position planet1_name exact_jd,
                             calculate_position planet2_name exact_jd) of
                         (Some exact_pos1, Some exact_pos2) \<Rightarrow>
                           (let exact_angle = float_angular_distance exact_pos1 exact_pos2;
                                angle_error =
                                  (if target_angle = 180 then \<bar>float_sub exact_angle 180\<bar>
                                   else if target_angle = 0
                                        then min exact_angle (float_sub 360 exact_angle)
                                        else \<bar>float_sub exact_angle target_angle\<bar>)
                            in if angle_error \<le> double_round (1 / 100) then
                                 (case datetime_call exact_jd of
                                    Inl e \<Rightarrow> Inl e
                                  | Inr utc_dt \<Rightarrow>
                                      Inr [\<lparr>ad_date_time = utc_dt,
                                            ad_planet1 = planet1_name,
                                            ad_planet2 = planet2_name,
                                            ad_aspect = aspect_name,
                                            ad_aspect_abbrev = abbrev,
                                            ad_angle = py_round exact_angle 6,
                                            ad_planet1_lon = py_round exact_pos1 6,
                                            ad_planet2_lon = py_round exact_pos2 6,
                                            ad_description =
                                              planet1_name @ ''-'' @ planet2_name @ '' '' @ abbrev,
                                            ad_exact_jd = exact_jd,
                                            ad_angle_error = py_round angle_error 6\<rparr>])
                               else Inr [])
                       | _ \<Rightarrow> Inl TypeError))
               else Inr [])
         else Inr [])"

fun check_aspects ::
  "(string \<Rightarrow> real \<Rightarrow> real option) \<Rightarrow> real \<Rightarrow> string \<Rightarrow> string
     \<Rightarrow> real \<Rightarrow> (string \<times> real \<times> real \<times> string) list
     \<Rightarrow> py_error + datetime_object aspect_data list" where
  "check_aspects calculate_position current_jd planet1_name planet2_name current_angle [] = Inr []"
| "check_aspects calculate_position current_jd planet1_name planet2_name current_angle
       (entry # rest) =
     (case check_aspect calculate_position current_jd planet1_name planet2_name
             current_angle entry of
        Inl e \<Rightarrow> Inl e
      | Inr found \<Rightarrow>
          (case check_aspects calculate_position current_jd planet1_name planet2_name
                  current_angle rest of
             Inl e \<Rightarrow> Inl e
           | Inr later \<Rightarrow> Inr (found @ later)))"

text \<open>
  The body of \<^verbatim>\<open>for planet1, planet2 in planet_pairs\<close>, lines 225-286: a pair with a
  missing position is skipped (\<^verbatim>\<open>continue\<close>).
\<close>

definition scan_pair ::
  "(string \<Rightarrow> real \<Rightarrow> real option) \<Rightarrow> real \<Rightarrow> string \<times> string
     \<Rightarrow> py_error + datetime_object aspect_data list" where
  "scan_pair calculate_position current_jd pair =
     (case (calculate_position (fst pair) current_jd, calculate_position (snd pair) current_jd) of
        (Some pos1, Some pos2) \<Rightarrow>
          check_aspects calculate_position current_jd (fst pair) (snd pair)
            (float_angular_distance pos1 pos2) aspects
      | _ \<Rightarrow> Inr [])"

fun scan_pairs ::
  "(string \<Rightarrow> real \<Rightarrow> real option) \<Rightarrow> real \<Rightarrow> (string \<times> string) list
     \<Rightarrow> py_error + datetime_object aspect_data list" where
  "scan_pairs calculate_position current_jd [] = Inr []"
| "scan_pairs calculate_position current_jd (pair # rest) =
     (case scan_pair calculate_position current_jd pair of
        Inl e \<Rightarrow> Inl e
      | Inr found \<Rightarrow>
          (case scan_pairs calculate_position current_jd rest of
             Inl e \<Rightarrow> Inl e
           | Inr later \<Rightarrow> Inr (found @ later)))"

text \<open>
  One iteration of the \<^verbatim>\<open>while\<close> loop up to line 286: line 222 builds \<^verbatim>\<open>dt\<close> before
  the pairs are visited.
\<close>

definition scan_instant ::
  "(string \<Rightarrow> real \<Rightarrow> real option) \<Rightarrow> real \<Rightarrow> py_error + datetime_object aspect_data list" where
  "scan_instant calculate_position current_jd =
     (case datetime_call current_jd of
        Inl e \<Rightarrow> Inl e
      | Inr dt \<Rightarrow> scan_pairs calculate_position current_jd (planet_pairs_of all_planets))"

text \<open>
  \<^verbatim>\<open>while current_jd <= end_jd\<close>, lines 220-293. The loop does not end when the step
  is not positive, so the result is an option: None is "does not return". After each
  instant, line 291 divides by \<^verbatim>\<open>end_jd - start_jd\<close>, which raises ZeroDivisionError when
  the two are equal. \<^verbatim>\<open>scan_for_aspects\<close> takes the two Julian days that
  \<^verbatim>\<open>swe.julday\<close> computes from its date arguments.
\<close>

partial_function (option) scan_loop ::
  "(string \<Rightarrow> real \<Rightarrow> real option) \<Rightarrow> real \<Rightarrow> real \<Rightarrow> real \<Rightarrow> real
     \<Rightarrow> datetime_object aspect_data list
     \<Rightarrow> (py_error + datetime_object aspect_data list) option" where
  "scan_loop calculate_position start_jd end_jd step_jd current_jd found_aspects =
     (if current_jd \<le> end_jd then
        (case scan_instant calculate_position current_jd of
           Inl e \<Rightarrow> Some (Inl e)
         | Inr found \<Rightarrow>
             if float_sub end_jd start_jd = 0 then Some (Inl ZeroDivisionError)
             else scan_loop calculate_position start_jd end_jd step_jd
                    (float_add current_jd step_jd) (found_aspects @ found))
      else Some (Inr found_aspects))"

definition scan_for_aspects ::
  "(string \<Rightarrow> real \<Rightarrow> real option) \<Rightarrow> real \<Rightarrow> real \<Rightarrow> real
     \<Rightarrow> (py_error + datetime_object aspect_data list) option" where
  "scan_for_aspects calculate_position start_jd end_jd step_hours =
     scan_loop calculate_position start_jd end_jd (float_div step_hours 24) start_jd []"

section \<open>Exact-date scan (AspectCalculator.find_exact_aspect_dates)\<close>

text \<open>
  \<^verbatim>\<open>find_aspects_for_date(date)\<close>, lines 461-498. \<open>planet_names\<close> is
  \<^verbatim>\<open>list(self.planets.keys())\<close> and \<open>hlon name d\<close> the longitude in degrees that
  \<^verbatim>\<open>calculate_planetary_positions\<close> gets from the ephemeris for that body and date.
  \<^verbatim>\<open>if aspect_type:\<close> is false for the empty string only.
\<close>

definition find_aspects_for_date ::
  "(string \<times> real) list \<Rightarrow> real \<Rightarrow> string list \<Rightarrow> (string \<Rightarrow> real \<Rightarrow> real) \<Rightarrow> real
     \<Rightarrow> found_aspect list" where
  "find_aspects_for_date catalog orb planet_names hlon d =
     concat (map (\<lambda>pair.
        (let short_long = calculate_angle_between_planets (hlon (fst pair) d) (hlon (snd pair) d);
             short_arc = fst short_long; long_arc = snd short_long;
             aspect_type = get_aspect_type catalog orb short_arc long_arc
         in if aspect_type \<noteq> '''' then
              [\<lparr>date = d, planet1 = fst pair, planet2 = snd pair, aspect = aspect_type,
                angle = (if aspect_type = ''Gann74'' then long_arc else short_arc),
                planet1_lon = hlon (fst pair) d, planet2_lon = hlon (snd pair) d\<rparr>]
            else []))
       (planet_pairs_of planet_names))"

text \<open>
  \<^verbatim>\<open>for aspect in aspects\<close>, lines 587-622, at one scan date.
\<close>

fun track_found ::
  "(string \<times> real) list \<Rightarrow> tracker \<Rightarrow> real \<Rightarrow> found_aspect list \<Rightarrow> py_error + tracker" where
  "track_found catalog st current_date [] = Inr st"
| "track_found catalog st current_date (a # rest) =
     (case track_aspect catalog st current_date a of
        Inl e \<Rightarrow> Inl e
      | Inr st' \<Rightarrow> track_found catalog st' current_date rest)"

text \<open>
  \<^verbatim>\<open>while current_date <= end\<close>, lines 584-629, with \<^verbatim>\<open>current_date += step\<close>. The
  loop does not end when the step is not positive: None is "does not return".
\<close>

partial_function (option) exact_loop ::
  "(string \<times> real) list \<Rightarrow> real \<Rightarrow> string list \<Rightarrow> (string \<Rightarrow> real \<Rightarrow> real) \<Rightarrow> real \<Rightarrow> real
     \<Rightarrow> real \<Rightarrow> tracker \<Rightarrow> (py_error + tracker) option" where
  "exact_loop catalog orb planet_names hlon end step current_date st =
     (if current_date \<le> end then
        (case track_found catalog st current_date
                (find_aspects_for_date catalog orb planet_names hlon current_date) of
           Inl e \<Rightarrow> Some (Inl e)
         | Inr st' \<Rightarrow>
             exact_loop catalog orb planet_names hlon end step (current_date + step) st')
      else Some (Inr st))"

text \<open>
  \<^verbatim>\<open>find_exact_aspect_dates(start_date, end_date, precision_hours)\<close>, lines 570-637,
  on the two dates as day numbers.
\<close>

definition find_exact_aspect_dates ::
  "(string \<times> real) list \<Rightarrow> real \<Rightarrow> real \<Rightarrow> string list \<Rightarrow> (string \<Rightarrow> real \<Rightarrow> real) \<Rightarrow> real
     \<Rightarrow> real \<Rightarrow> real \<Rightarrow> (py_error + found_aspect list) option" where
  "find_exact_aspect_dates catalog orb min_days_between_aspects planet_names hlon start end
       precision_hours =
     (case exact_loop catalog orb planet_names hlon end (precision_hours / 24) start ([], []) of
        None \<Rightarrow> None
      | Some (Inl e) \<Rightarrow> Some (Inl e)
      | Some (Inr st) \<Rightarrow>
          Some (deduplicate_aspects catalog min_days_between_aspects (flush_windows st)))"

text \<open>
  The first \<open>n\<close> dates of a scan.
\<close>

definition scan_dates :: "real \<Rightarrow> real \<Rightarrow> nat \<Rightarrow> real list" where
  "scan_dates start step n = map (\<lambda>k. start + real k * step) [0..<n]"

text \<open>
  An ephemeris used as concrete input: Jupiter stays at 0 degrees; Saturn is at 0.5
  degrees on day 0, at 0.2 degrees on day 100 and at 10 degrees on any other day.
\<close>

definition two_pass_ephemeris :: "string \<Rightarrow> real \<Rightarrow> real" where
  "two_pass_ephemeris planet d =
     (if planet = ''Jupiter'' then 0
      else if d = 0 then 1 / 2 else if d = 100 then 1 / 5 else 10)"

text \<open>
  A second ephemeris and its candidates. Jupiter stays at 0 degrees; Saturn is at 285.25
  degrees on day 0, at 286 degrees on day 1 and at 286.75 degrees on any other day, so the
  long arc between the two is Saturn's longitude. Every value is a multiple of 1/4 below
  512, and so is every difference the code takes of them: the arithmetic is exact in
  binary64. \<open>gann74_at d long_arc\<close> is the dict \<^verbatim>\<open>find_aspects_for_date\<close> appends for
  the pair on day \<open>d\<close>.
\<close>

definition reflex_ephemeris :: "string \<Rightarrow> real \<Rightarrow> real" where
  "reflex_ephemeris planet d =
     (if planet = ''Jupiter'' then 0
      else if d = 0 then 1141 / 4 else if d = 1 then 286 else 1147 / 4)"

definition gann74_at :: "real \<Rightarrow> real \<Rightarrow> found_aspect" where
  "gann74_at d long_arc =
     \<lparr>date = d, planet1 = ''Jupiter'', planet2 = ''Saturn'', aspect = ''Gann74'',
      angle = long_arc, planet1_lon = 0, planet2_lon = long_arc\<rparr>"

section \<open>Properties of the angle arithmetic\<close>

lemma angular_distance_commute: "angular_distance a b = angular_distance b a"
  by (simp add: angular_distance_def abs_minus_commute)

lemma angular_distance_range:
  assumes "\<bar>a - b\<bar> \<le> 360"
  shows "0 \<le> angular_distance a b \<and> angular_distance a b \<le> 180"
  using assms by (simp add: angular_distance_def Let_def)

text \<open>
  C7, as the code has it. The short-arc distance is symmetric for all real longitudes.
  Its result lies in [0, 180] whenever the two longitudes differ by at most 360 degrees,
  in particular for two longitudes in [0, 360); the function takes no remainder
  modulo 360, so the bound does not extend to all reals.
\<close>

theorem angular_distance_symmetric_bounded:
  "angular_distance lon1 lon2 = angular_distance lon2 lon1
   \<and> (\<bar>lon1 - lon2\<bar> \<le> 360 \<longrightarrow>
        0 \<le> angular_distance lon1 lon2 \<and> angular_distance lon1 lon2 \<le> 180)"
  using angular_distance_commute [of lon1 lon2] angular_distance_range [of lon1 lon2]
  by blast

theorem angular_distance_symmetric_bounded_witness:
  "\<bar>(1::real) - 359\<bar> \<le> 360 \<and> angular_distance 1 359 = angular_distance 359 1
   \<and> 0 \<le> angular_distance 1 359 \<and> angular_distance 1 359 \<le> 180"
  using angular_distance_symmetric_bounded [of 1 359] by simp

text \<open>
  C7 as stated fails: for the real longitudes 0 and 400 the result is -40, outside
  [0, 180].
\<close>

theorem angular_distance_range_counterexample:
  "angular_distance 0 400 = - 40 \<and> \<not> (0 \<le> angular_distance 0 400)"
  by (simp add: angular_distance_def)

text \<open>
  C8, as the code has it. For two longitudes in [0, 360) the long arc of the both-arcs
  function lies in [180, 360] (it is the complement of the short arc to 360).
\<close>

theorem long_arc_range:
  "0 \<le> lon1 \<and> lon1 < 360 \<and> 0 \<le> lon2 \<and> lon2 < 360 \<longrightarrow>
     180 \<le> snd (angular_distance_both_arcs lon1 lon2)
     \<and> snd (angular_distance_both_arcs lon1 lon2) \<le> 360
     \<and> snd (calculate_angle_between_planets lon1 lon2)
         = snd (angular_distance_both_arcs lon1 lon2)
     \<and> fst (angular_distance_both_arcs lon1 lon2)
         + snd (angular_distance_both_arcs lon1 lon2) = 360"
proof (intro impI)
  assume r: "0 \<le> lon1 \<and> lon1 < 360 \<and> 0 \<le> lon2 \<and> lon2 < 360"
  then have d: "\<bar>lon1 - lon2\<bar> \<le> 360" by linarith
  have n: "0 \<le> \<bar>lon1 - lon2\<bar>" by simp
  from d n show "180 \<le> snd (angular_distance_both_arcs lon1 lon2)
     \<and> snd (angular_distance_both_arcs lon1 lon2) \<le> 360
     \<and> snd (calculate_angle_between_planets lon1 lon2)
         = snd (angular_distance_both_arcs lon1 lon2)
     \<and> fst (angular_distance_both_arcs lon1 lon2)
         + snd (angular_distance_both_arcs lon1 lon2) = 360"
    by (simp add: angular_distance_both_arcs_def calculate_angle_between_planets_def
        Let_def)
qed

theorem long_arc_range_witness:
  "(0::real) \<le> 10 \<and> (10::real) < 360 \<and> (0::real) \<le> 100 \<and> (100::real) < 360
   \<and> 180 \<le> snd (angular_distance_both_arcs 10 100)
   \<and> snd (angular_distance_both_arcs 10 100) \<le> 360"
  using long_arc_range [of 10 100] by simp

text \<open>
  C8 as stated fails: for the longitudes 0 and 90 the long arc is 270, outside
  [0, 180].
\<close>

theorem long_arc_range_counterexample:
  "snd (angular_distance_both_arcs 0 90) = 270
   \<and> \<not> (snd (angular_distance_both_arcs 0 90) \<le> 180)"
  by (simp add: angular_distance_both_arcs_def)

section \<open>Properties of the price patterns\<close>

lemma str_len_priority:
  "price \<in> set priority_patterns \<Longrightarrow> str_len price = 2 \<or> str_len price = 3"
  by (auto simp: priority_patterns_def str_len_def)

lemma bold_not_short: "is_bold_pattern price \<Longrightarrow> \<not> is_short_term_pattern price"
proof
  assume b: "is_bold_pattern price" and s: "is_short_term_pattern price"
  from s have len: "str_len price = 5 \<or> str_len price = 4"
    by (auto simp: is_short_term_pattern_def Let_def split: if_splits)
  from s have hd: "(price div 100) mod 45 \<noteq> 0 \<or> price div 100 = 0"
    by (auto simp: is_short_term_pattern_def Let_def split: if_splits)
  from len have np: "price \<notin> set priority_patterns"
    using str_len_priority [of price] by auto
  from b np len have "(price div 100) mod 45 = 0 \<and> price div 100 > 0"
    by (auto simp: is_bold_pattern_def Let_def split: if_splits)
  with hd show False by auto
qed

lemma regular_not_bold: "is_regular_45_multiple price \<Longrightarrow> \<not> is_bold_pattern price"
  by (auto simp: is_regular_45_multiple_def split: if_splits)

lemma regular_not_short:
  "is_regular_45_multiple price \<Longrightarrow> \<not> is_short_term_pattern price"
  by (auto simp: is_regular_45_multiple_def split: if_splits)

text \<open>
  C10. For every positive integer price the three classifiers are pairwise mutually
  exclusive, so at most one of them returns True.
\<close>

theorem price_patterns_exclusive:
  "0 < price \<Longrightarrow>
     \<not> (is_bold_pattern price \<and> is_short_term_pattern price)
     \<and> \<not> (is_bold_pattern price \<and> is_regular_45_multiple price)
     \<and> \<not> (is_short_term_pattern price \<and> is_regular_45_multiple price)"
  using bold_not_short [of price] regular_not_bold [of price] regular_not_short [of price]
  by blast

theorem price_patterns_exclusive_witness:
  "(0::int) < 4500 \<and> is_bold_pattern 4500
   \<and> \<not> (is_bold_pattern 4500 \<and> is_short_term_pattern 4500)
   \<and> \<not> (is_bold_pattern 4500 \<and> is_regular_45_multiple 4500)
   \<and> \<not> (is_short_term_pattern 4500 \<and> is_regular_45_multiple 4500)"
proof -
  have b: "is_bold_pattern 4500"
    by (simp add: is_bold_pattern_def str_len_def priority_patterns_def)
  show ?thesis using b price_patterns_exclusive [of 4500] by simp
qed

section \<open>Properties of the aspect matcher\<close>

lemma get_aspect_type_first:
  "get_aspect_type catalog orb s l = first_matching (orb_test orb s l) fst catalog"
  by (induction catalog orb s l rule: get_aspect_type.induct)
     (simp_all add: first_matching_def orb_test_def)

lemma first_within_orb_find:
  "first_within_orb xs orb arc = map_option fst (find (\<lambda>d. \<bar>arc - snd d\<bar> \<le> orb) xs)"
  by (induction xs orb arc rule: first_within_orb.induct) simp_all

lemma find_tagged:
  "find (orb_test_custom orb s l) (map (Pair b) xs) =
     map_option (Pair b) (find (\<lambda>d. \<bar>(if b then l else s) - snd d\<bar> \<le> orb) xs)"
  by (induction xs) (auto simp: orb_test_custom_def)

lemma find_app: "find P (xs @ ys) = (case find P xs of None \<Rightarrow> find P ys | Some x \<Rightarrow> Some x)"
  by (induction xs) auto

lemma get_aspect_type_custom_first:
  "get_aspect_type_custom std gann orb s l =
     first_matching (orb_test_custom orb s l) (\<lambda>d. fst (snd d)) (tagged_catalog std gann)"
  by (auto simp: get_aspect_type_custom_def first_matching_def tagged_catalog_def find_app
        find_tagged first_within_orb_find split: option.splits)

text \<open>
  C6. For every pair of arcs and every ordered catalog, \<open>get_aspect_type\<close> returns the
  first definition in catalog order whose orb test passes (Gann74 against the long arc,
  every other definition against the short arc) and the empty string when none passes;
  the matcher of custom_gann_aspect_finder.py does the same on its catalog, the standard
  aspects followed by the Gann angles. With overlapping orbs the earlier declaration wins
  even when a later one is closer: arc 60.9 matches Sextile (60) before Gann61 (61).
\<close>

theorem get_aspect_type_first_in_catalog_order:
  "get_aspect_type catalog orb short_arc long_arc
     = first_matching (orb_test orb short_arc long_arc) fst catalog
   \<and> get_aspect_type_custom standard_aspects gann_angles orb short_arc long_arc
     = first_matching (orb_test_custom orb short_arc long_arc) (\<lambda>d. fst (snd d))
         (tagged_catalog standard_aspects gann_angles)
   \<and> get_aspect_type [(''Sextile'', 60), (''Gann61'', 61)] 1 (609 / 10) (2991 / 10)
     = ''Sextile''"
proof -
  have "get_aspect_type [(''Sextile'', 60), (''Gann61'', 61)] 1 (609 / 10) (2991 / 10)
     = ''Sextile''"
    by simp
  then show ?thesis
    using get_aspect_type_first [of catalog orb short_arc long_arc]
      get_aspect_type_custom_first [of standard_aspects gann_angles orb short_arc long_arc]
    by blast
qed

section \<open>Properties of the floating-point arithmetic\<close>

lemma round_half_even_ge: "of_int m \<le> x \<Longrightarrow> m \<le> round_half_even x"
proof -
  assume "of_int m \<le> x"
  then have "m \<le> \<lfloor>x\<rfloor>" by (simp add: le_floor_iff)
  then show ?thesis by (auto simp: round_half_even_def Let_def)
qed

lemma round_half_even_le: "x \<le> of_int m \<Longrightarrow> round_half_even x \<le> m"
proof -
  assume a: "x \<le> of_int m"
  then have fm: "\<lfloor>x\<rfloor> \<le> m" by (simp add: floor_le_iff)
  show ?thesis
  proof (cases "\<lfloor>x\<rfloor> = m")
    case True
    with a have "x - of_int \<lfloor>x\<rfloor> \<le> 0" by simp
    then show ?thesis using True by (simp add: round_half_even_def Let_def)
  next
    case False
    with fm have "\<lfloor>x\<rfloor> + 1 \<le> m" by simp
    with fm show ?thesis by (auto simp: round_half_even_def Let_def)
  qed
qed

lemma round_half_even_of_int: "round_half_even (of_int m) = m"
  by (simp add: round_half_even_def)

lemma round_half_even_mono: "x \<le> y \<Longrightarrow> round_half_even x \<le> round_half_even y"
proof -
  assume xy: "x \<le> y"
  then have f: "\<lfloor>x\<rfloor> \<le> \<lfloor>y\<rfloor>" by (rule floor_mono)
  show ?thesis
  proof (cases "\<lfloor>x\<rfloor> = \<lfloor>y\<rfloor>")
    case True
    with xy have "x - of_int \<lfloor>x\<rfloor> \<le> y - of_int \<lfloor>y\<rfloor>" by simp
    with True show ?thesis by (auto simp: round_half_even_def Let_def)
  next
    case False
    with f have "\<lfloor>x\<rfloor> + 1 \<le> \<lfloor>y\<rfloor>" by simp
    moreover have "round_half_even x \<le> \<lfloor>x\<rfloor> + 1" by (auto simp: round_half_even_def Let_def)
    moreover have "\<lfloor>y\<rfloor> \<le> round_half_even y" by (auto simp: round_half_even_def Let_def)
    ultimately show ?thesis by linarith
  qed
qed

lemma round_half_even_minus: "round_half_even (- x) = - round_half_even x"
proof (cases "x = of_int \<lfloor>x\<rfloor>")
  case True
  then obtain n :: int where "x = of_int n" by blast
  then have "- x = of_int (- n)" by simp
  then show ?thesis using \<open>x = of_int n\<close> round_half_even_of_int by metis
next
  case False
  let ?f = "\<lfloor>x\<rfloor>"
  have lo: "of_int ?f < x" using False by (metis floor_correct less_eq_real_def)
  have hi: "x < of_int ?f + 1" by linarith
  have fm: "\<lfloor>- x\<rfloor> = - ?f - 1"
  proof (rule floor_unique)
    show "of_int (- ?f - 1) \<le> - x" using hi by simp linarith
    show "- x < of_int (- ?f - 1) + 1" using lo by simp
  qed
  have ev: "even (- ?f - 1) \<longleftrightarrow> odd ?f" by simp
  show ?thesis
    unfolding round_half_even_def Let_def fm
    using lo hi ev by (auto simp: field_simps)
qed

lemma double_round_ulp:
  "double_round x = (if x = 0 then 0 else of_int (round_half_even (x / ulp x)) * ulp x)"
  by (simp add: double_round_def ulp_def)

lemma ulp_pos: "0 < ulp x"
  by (simp add: ulp_def)

lemma binade_bounds:
  assumes "x \<noteq> 0"
  shows "2 powr of_int (binade x) \<le> \<bar>x\<bar>" and "\<bar>x\<bar> < 2 powr (of_int (binade x) + 1)"
proof -
  have p: "0 < \<bar>x\<bar>" using assms by simp
  have "of_int (binade x) \<le> log 2 \<bar>x\<bar>" by (simp add: binade_def)
  then show "2 powr of_int (binade x) \<le> \<bar>x\<bar>" using p by (simp only: le_log_iff)
  have "log 2 \<bar>x\<bar> < of_int (binade x) + 1" unfolding binade_def by linarith
  then show "\<bar>x\<bar> < 2 powr (of_int (binade x) + 1)" using p by (simp only: log_less_iff)
qed

lemma binade_unique:
  assumes "2 powr of_int b \<le> \<bar>x\<bar>" and "\<bar>x\<bar> < 2 powr (of_int b + 1)"
  shows "binade x = b"
proof -
  have "(0::real) < 2 powr of_int b" by simp
  with assms(1) have p: "0 < \<bar>x\<bar>" by linarith
  have lo: "of_int b \<le> log 2 \<bar>x\<bar>" using assms(1) p by (simp only: le_log_iff)
  have hi: "log 2 \<bar>x\<bar> < of_int b + 1" using assms(2) p by (simp only: log_less_iff)
  show ?thesis unfolding binade_def
  proof (rule floor_unique)
    show "of_int b \<le> log 2 \<bar>x\<bar>" by (rule lo)
    show "log 2 \<bar>x\<bar> < of_int b + 1" by (rule hi)
  qed
qed

lemma binade_minus: "binade (- x) = binade x"
  by (simp add: binade_def)

lemma binade_double: "x \<noteq> 0 \<Longrightarrow> binade (2 * x) = binade x + 1"
proof -
  assume x: "x \<noteq> 0"
  have a: "2 powr of_int (binade x + 1) \<le> \<bar>2 * x\<bar>"
    using binade_bounds(1) [OF x] by (simp add: powr_add abs_mult)
  have b: "\<bar>2 * x\<bar> < 2 powr (of_int (binade x + 1) + 1)"
    using binade_bounds(2) [OF x] by (simp add: powr_add abs_mult)
  show ?thesis by (rule binade_unique [OF a b])
qed

lemma ulp_minus: "ulp (- x) = ulp x"
  by (simp add: ulp_def binade_minus)

lemma ulp_double: "x \<noteq> 0 \<Longrightarrow> ulp (2 * x) = 2 * ulp x"
proof -
  assume x: "x \<noteq> 0"
  have "(of_int (binade x + 1) :: real) - 52 = (of_int (binade x) - 52) + 1" by simp
  then have "(2::real) powr (of_int (binade x + 1) - 52) = 2 powr (of_int (binade x) - 52) * 2"
    by (simp only: powr_add) simp
  then show ?thesis unfolding ulp_def binade_double [OF x] by simp
qed

lemma two_powr_52: "(2::real) powr 52 = 2 ^ 52" and two_powr_53: "(2::real) powr 53 = 2 ^ 53"
  by (simp_all add: powr_numeral)

lemma mantissa_bounds:
  assumes "0 < x"
  shows "2 ^ 52 \<le> x / ulp x" and "x / ulp x < 2 ^ 53"
proof -
  have x: "x \<noteq> 0" using assms by simp
  have u: "ulp x = 2 powr of_int (binade x) / 2 powr 52"
    by (simp add: ulp_def powr_diff)
  have "2 powr of_int (binade x) \<le> x" using binade_bounds(1) [OF x] assms by simp
  then have "2 powr of_int (binade x) / ulp x \<le> x / ulp x"
    using ulp_pos [of x] by (simp add: divide_right_mono)
  then show "2 ^ 52 \<le> x / ulp x" by (simp add: u two_powr_52)
  have "x < 2 powr (of_int (binade x) + 1)" using binade_bounds(2) [OF x] assms by simp
  then have "x / ulp x < 2 powr (of_int (binade x) + 1) / ulp x"
    using ulp_pos [of x] by (simp add: divide_strict_right_mono)
  also have "2 powr (of_int (binade x) + 1) / ulp x = 2 ^ 53"
    by (simp add: u powr_add two_powr_52)
  finally show "x / ulp x < 2 ^ 53" .
qed

lemma double_round_minus: "double_round (- x) = - double_round x"
  by (simp add: double_round_ulp ulp_minus round_half_even_minus)

lemma double_round_double: "double_round (2 * x) = 2 * double_round x"
  by (cases "x = 0") (simp_all add: double_round_ulp ulp_double)

lemma double_round_pos_bounds:
  assumes "0 < x"
  shows "2 powr of_int (binade x) \<le> double_round x"
    and "double_round x \<le> 2 powr (of_int (binade x) + 1)"
proof -
  have u: "ulp x = 2 powr of_int (binade x) / 2 powr 52"
    by (simp add: ulp_def powr_diff)
  have "of_int (2 ^ 52) \<le> x / ulp x" using mantissa_bounds(1) [OF assms] by simp
  then have "2 ^ 52 \<le> round_half_even (x / ulp x)" by (rule round_half_even_ge)
  then have "(of_int (2 ^ 52) :: real) \<le> of_int (round_half_even (x / ulp x))"
    by (simp only: of_int_le_iff)
  then have "(2::real) ^ 52 \<le> of_int (round_half_even (x / ulp x))" by simp
  then have "2 ^ 52 * ulp x \<le> of_int (round_half_even (x / ulp x)) * ulp x"
    using ulp_pos [of x] by (simp add: mult_right_mono)
  then show "2 powr of_int (binade x) \<le> double_round x"
    using assms by (simp add: double_round_ulp u two_powr_52)
  have "x / ulp x \<le> of_int (2 ^ 53)" using mantissa_bounds(2) [OF assms] by simp
  then have "round_half_even (x / ulp x) \<le> 2 ^ 53" by (rule round_half_even_le)
  then have "(of_int (round_half_even (x / ulp x)) :: real) \<le> of_int (2 ^ 53)"
    by (simp only: of_int_le_iff)
  then have "of_int (round_half_even (x / ulp x)) \<le> (2::real) ^ 53" by simp
  then have "of_int (round_half_even (x / ulp x)) * ulp x \<le> 2 ^ 53 * ulp x"
    using ulp_pos [of x] by (simp add: mult_right_mono)
  then show "double_round x \<le> 2 powr (of_int (binade x) + 1)"
    using assms by (simp add: double_round_ulp u powr_add two_powr_52)
qed

lemma double_round_pos: "0 < x \<Longrightarrow> 0 < double_round x"
proof -
  assume "0 < x"
  then have "2 powr of_int (binade x) \<le> double_round x" by (rule double_round_pos_bounds(1))
  moreover have "(0::real) < 2 powr of_int (binade x)" by simp
  ultimately show ?thesis by linarith
qed

lemma binade_mono:
  assumes "0 < x" and "x \<le> y"
  shows "binade x \<le> binade y"
  unfolding binade_def using assms by (intro floor_mono) (simp add: log_le_cancel_iff)

lemma double_round_mono_pos:
  assumes "0 < x" and "x \<le> y"
  shows "double_round x \<le> double_round y"
proof (cases "binade x = binade y")
  case True
  then have u: "ulp y = ulp x" by (simp add: ulp_def)
  have "x / ulp x \<le> y / ulp x" using assms(2) ulp_pos [of x] by (simp add: divide_right_mono)
  then have "round_half_even (x / ulp x) \<le> round_half_even (y / ulp x)"
    by (rule round_half_even_mono)
  then have "(of_int (round_half_even (x / ulp x)) :: real) \<le> of_int (round_half_even (y / ulp x))"
    by linarith
  then have "of_int (round_half_even (x / ulp x)) * ulp x
      \<le> of_int (round_half_even (y / ulp x)) * ulp x"
    using ulp_pos [of x] by (simp add: mult_right_mono)
  then show ?thesis using assms by (simp add: double_round_ulp u)
next
  case False
  have y: "0 < y" using assms by simp
  from False binade_mono [OF assms] have "binade x + 1 \<le> binade y" by simp
  then have "(of_int (binade x) :: real) + 1 \<le> of_int (binade y)" by linarith
  then have "(2::real) powr (of_int (binade x) + 1) \<le> 2 powr of_int (binade y)"
    by (simp add: powr_mono)
  with double_round_pos_bounds(2) [OF assms(1)] double_round_pos_bounds(1) [OF y]
  show ?thesis by linarith
qed

lemma double_round_zero: "double_round 0 = 0"
  by (simp add: double_round_def)

lemma double_round_mono: "x \<le> y \<Longrightarrow> double_round x \<le> double_round y"
proof -
  assume xy: "x \<le> y"
  consider (pos) "0 < x" | (neg) "y < 0" | (mid) "x \<le> 0" "0 \<le> y" by linarith
  then show ?thesis
  proof cases
    case pos
    then show ?thesis using xy by (rule double_round_mono_pos)
  next
    case neg
    then have "0 < - y" "- y \<le> - x" using xy by simp_all
    then have "double_round (- y) \<le> double_round (- x)" by (rule double_round_mono_pos)
    then show ?thesis by (simp add: double_round_minus)
  next
    case mid
    have a: "double_round x \<le> 0"
    proof (cases "x = 0")
      case True
      then show ?thesis by (simp add: double_round_zero)
    next
      case False
      with mid have "0 < - x" by simp
      then have "0 < double_round (- x)" by (rule double_round_pos)
      then show ?thesis by (simp add: double_round_minus)
    qed
    have b: "0 \<le> double_round y"
    proof (cases "y = 0")
      case True
      then show ?thesis by (simp add: double_round_zero)
    next
      case False
      with mid have "0 < y" by simp
      then have "0 < double_round y" by (rule double_round_pos)
      then show ?thesis by simp
    qed
    from a b show ?thesis by linarith
  qed
qed

lemma two_powr_nonneg_int: "0 \<le> k \<Longrightarrow> (2::real) powr of_int k = 2 ^ nat k"
proof -
  assume "0 \<le> k"
  then have e: "(of_int k :: real) = real (nat k)" by simp
  show ?thesis unfolding e by (rule powr_realpow) simp
qed

lemma binade_scaled:
  assumes "x \<noteq> 0"
  shows "binade (x * 2 powr of_int e) = binade x + e"
proof (rule binade_unique)
  have s: "\<bar>x * 2 powr of_int e\<bar> = \<bar>x\<bar> * 2 powr of_int e" by (simp add: abs_mult)
  have p: "(0::real) < 2 powr of_int e" by simp
  have "2 powr of_int (binade x) * 2 powr of_int e \<le> \<bar>x\<bar> * 2 powr of_int e"
    using binade_bounds(1) [OF assms] p by (simp only: mult_le_cancel_right_pos)
  then show "2 powr of_int (binade x + e) \<le> \<bar>x * 2 powr of_int e\<bar>"
    by (simp add: s powr_add)
  have "\<bar>x\<bar> * 2 powr of_int e < 2 powr (of_int (binade x) + 1) * 2 powr of_int e"
    using binade_bounds(2) [OF assms] p by (simp only: mult_less_cancel_right_pos)
  then show "\<bar>x * 2 powr of_int e\<bar> < 2 powr (of_int (binade x + e) + 1)"
    by (simp add: s powr_add algebra_simps)
qed

lemma binade_int_range:
  assumes "m \<noteq> 0" and "\<bar>m\<bar> < 2 ^ 53"
  shows "0 \<le> binade (of_int m)" and "binade (of_int m) \<le> 52"
proof -
  let ?c = "binade (of_int m)"
  have x: "(of_int m :: real) \<noteq> 0" using assms(1) by simp
  have one: "(1::real) \<le> \<bar>of_int m\<bar>" using assms(1) by (simp flip: of_int_abs)
  have "(1::real) < 2 powr (of_int ?c + 1)" using binade_bounds(2) [OF x] one by linarith
  then have "(2::real) powr 0 < 2 powr (of_int ?c + 1)" by simp
  then have "(0::real) < of_int ?c + 1" by (simp only: powr_less_cancel_iff)
  then show "0 \<le> ?c" by linarith
  have "\<bar>(of_int m :: real)\<bar> < 2 ^ 53" using assms(2) by (simp flip: of_int_abs)
  then have "(2::real) powr of_int ?c < 2 powr 53"
    using binade_bounds(1) [OF x] by (simp add: two_powr_53)
  then have "(of_int ?c :: real) < 53" by (simp only: powr_less_cancel_iff)
  then show "?c \<le> 52" by linarith
qed

lemma double_round_dyadic:
  assumes "m \<noteq> 0" and "\<bar>m\<bar> < 2 ^ 53"
  shows "double_round (of_int m * 2 powr of_int e) = of_int m * 2 powr of_int e"
proof -
  let ?c = "binade (of_int m)"
  define E :: real where "E = 2 powr of_int e"
  define P :: real where "P = 2 powr of_int (52 - ?c)"
  define x :: real where "x = of_int m * E"
  have m: "(of_int m :: real) \<noteq> 0" using assms(1) by simp
  have Ep: "0 < E" and Pp: "0 < P" by (simp_all add: E_def P_def)
  have x: "x \<noteq> 0" using m Ep by (simp add: x_def)
  have b: "binade x = ?c + e" unfolding x_def E_def by (rule binade_scaled [OF m])
  have k: "0 \<le> 52 - ?c" using binade_int_range(2) [OF assms] by simp
  have pw: "P = 2 ^ nat (52 - ?c)" unfolding P_def by (rule two_powr_nonneg_int [OF k])
  have "(of_int (?c + e) :: real) - 52 = of_int e - of_int (52 - ?c)" by simp
  then have u: "ulp x = E / P" unfolding ulp_def b E_def P_def by (simp only: powr_diff)
  have q: "x / ulp x = of_int m * P" unfolding u using Ep Pp by (simp add: x_def)
  have i: "of_int m * P = (of_int (m * 2 ^ nat (52 - ?c)) :: real)" unfolding pw by simp
  have "round_half_even (x / ulp x) = m * 2 ^ nat (52 - ?c)"
    unfolding q i by (rule round_half_even_of_int)
  then have "double_round x = of_int (m * 2 ^ nat (52 - ?c)) * ulp x"
    using x by (simp add: double_round_ulp)
  also have "\<dots> = of_int m * P * (E / P)" by (simp only: i u)
  also have "\<dots> = x" using Pp by (simp add: x_def)
  finally show ?thesis unfolding x_def E_def .
qed

lemma double_round_dyadic_div:
  assumes "m \<noteq> 0" and "\<bar>m\<bar> < 2 ^ 53"
  shows "double_round (of_int m / 2 ^ k) = of_int m / 2 ^ k"
proof -
  have "(2::real) powr of_int (- int k) = 1 / 2 ^ k"
    by (simp add: powr_minus powr_realpow divide_inverse)
  then have "(of_int m :: real) / 2 ^ k = of_int m * 2 powr of_int (- int k)" by simp
  then show ?thesis using double_round_dyadic [OF assms, of "- int k"] by simp
qed

lemma double_round_half_power: "double_round (1 / 2 ^ k) = 1 / 2 ^ k"
  using double_round_dyadic_div [of 1 k] by simp

lemma double_round_int: "m \<noteq> 0 \<Longrightarrow> \<bar>m\<bar> < 2 ^ 53 \<Longrightarrow> double_round (of_int m) = of_int m"
  using double_round_dyadic_div [of m 0] by simp

lemma double_round_idem_pos:
  assumes "0 < x"
  shows "double_round (double_round x) = double_round x"
proof -
  let ?n = "round_half_even (x / ulp x)"
  have x: "x \<noteq> 0" using assms by simp
  have dr: "double_round x = of_int ?n * 2 powr of_int (binade x - 52)"
    using x by (simp add: double_round_ulp ulp_def)
  have "of_int (2 ^ 52) \<le> x / ulp x" using mantissa_bounds(1) [OF assms] by simp
  then have lo: "2 ^ 52 \<le> ?n" by (rule round_half_even_ge)
  have "x / ulp x \<le> of_int (2 ^ 53)" using mantissa_bounds(2) [OF assms] by simp
  then have hi: "?n \<le> 2 ^ 53" by (rule round_half_even_le)
  show ?thesis
  proof (cases "?n = 2 ^ 53")
    case True
    have s: "(53::real) + of_int (binade x - 52) = of_int (binade x + 1)" by simp
    have "(of_int (2 ^ 53) :: real) = 2 powr 53" by (simp add: two_powr_53)
    then have "double_round x = 2 powr 53 * 2 powr of_int (binade x - 52)"
      unfolding dr True by (simp only:)
    also have "\<dots> = 2 powr (53 + of_int (binade x - 52))" by (simp only: powr_add)
    also have "\<dots> = of_int 1 * 2 powr of_int (binade x + 1)" by (simp only: s of_int_1 mult_1)
    finally have e: "double_round x = of_int 1 * 2 powr of_int (binade x + 1)" .
    show ?thesis unfolding e by (rule double_round_dyadic) simp_all
  next
    case False
    with hi have lt: "?n < 2 ^ 53" by simp
    have "(0::int) < 2 ^ 52" by simp
    with lo have pos: "0 < ?n" by linarith
    from lt pos have "?n \<noteq> 0" "\<bar>?n\<bar> < 2 ^ 53" by simp_all
    then show ?thesis unfolding dr by (rule double_round_dyadic)
  qed
qed

lemma double_round_idem: "double_round (double_round x) = double_round x"
proof -
  consider "x = 0" | "0 < x" | "x < 0" by linarith
  then show ?thesis
  proof cases
    case 1
    then show ?thesis by (simp add: double_round_zero)
  next
    case 2
    then show ?thesis by (rule double_round_idem_pos)
  next
    case 3
    then have "0 < - x" by simp
    then have "double_round (double_round (- x)) = double_round (- x)"
      by (rule double_round_idem_pos)
    then show ?thesis by (simp add: double_round_minus)
  qed
qed

section \<open>Properties of the exact-time solver\<close>

lemma interval_after_Suc: "interval_after f (Suc k) iv = interval_after f k (narrow f iv)"
  by (simp add: interval_after_def funpow_swap1)

lemma interval_after_0: "interval_after f 0 iv = iv"
  by (simp add: interval_after_def)

lemma float_midpoint_is_double: "is_double (float_midpoint l r)"
  by (simp add: is_double_def float_midpoint_def float_div_def double_round_idem)

lemma float_add_is_double: "is_double (float_add x y)"
  by (simp add: is_double_def float_add_def double_round_idem)

lemma float_midpoint_bounds:
  assumes "is_double l" and "is_double r" and "l \<le> r"
  shows "l \<le> float_midpoint l r" and "float_midpoint l r \<le> r"
proof -
  from assms have dl: "double_round l = l" and dr: "double_round r = r"
    by (simp_all add: is_double_def)
  have "double_round (2 * l) \<le> double_round (l + r)"
    using assms(3) by (intro double_round_mono) simp
  then have lo: "l \<le> double_round (l + r) / 2" by (simp add: double_round_double dl)
  have "double_round (l + r) \<le> double_round (2 * r)"
    using assms(3) by (intro double_round_mono) simp
  then have hi: "double_round (l + r) / 2 \<le> r" by (simp add: double_round_double dr)
  from double_round_mono [OF lo] show "l \<le> float_midpoint l r"
    by (simp add: float_midpoint_def float_div_def float_add_def dl)
  from double_round_mono [OF hi] show "float_midpoint l r \<le> r"
    by (simp add: float_midpoint_def float_div_def float_add_def dr)
qed

lemma solver_loop_bounds:
  "is_double l \<Longrightarrow> is_double r \<Longrightarrow> l \<le> r \<Longrightarrow>
     l \<le> exit_jd (solver_loop f n i l r) \<and> exit_jd (solver_loop f n i l r) \<le> r"
proof (induction n arbitrary: i l r)
  case 0
  then show ?case using float_midpoint_bounds [of l r] by simp
next
  case (Suc n)
  let ?m = "float_midpoint l r"
  from float_midpoint_bounds [OF Suc.prems]
  have lm: "l \<le> ?m" and mr: "?m \<le> r" by simp_all
  have dm: "is_double ?m" by (rule float_midpoint_is_double)
  from Suc.IH [OF Suc.prems(1) dm lm, of "Suc i"] Suc.IH [OF dm Suc.prems(2) mr, of "Suc i"]
    lm mr
  show ?case by (auto simp: Let_def)
qed

lemma solver_loop_trace:
  "(case solver_loop f n i l r of
      EarlyReturn i' jd \<Rightarrow>
        (\<exists>k<n. i' = i + k \<and> jd = midpoint_of (interval_after f k (l, r))
            \<and> below_tolerance (f jd)
            \<and> (\<forall>j<k. \<not> below_tolerance (f (midpoint_of (interval_after f j (l, r))))))
    | CapReturn jd \<Rightarrow>
        jd = midpoint_of (interval_after f n (l, r))
        \<and> (\<forall>j<n. \<not> below_tolerance (f (midpoint_of (interval_after f j (l, r))))))"
proof (induction n arbitrary: i l r)
  case 0
  then show ?case by (simp add: interval_after_0 midpoint_of_def)
next
  case (Suc n)
  let ?m = "float_midpoint l r"
  show ?case
  proof (cases "below_tolerance (f ?m)")
    case True
    then show ?thesis
      by (auto simp: Let_def interval_after_0 midpoint_of_def intro!: exI [of _ 0])
  next
    case False
    define iv where "iv = narrow f (l, r)"
    have step: "solver_loop f (Suc n) i l r = solver_loop f n (Suc i) (fst iv) (snd iv)"
      using False by (simp add: Let_def iv_def narrow_def midpoint_of_def)
    have shift: "\<And>k. interval_after f (Suc k) (l, r) = interval_after f k (fst iv, snd iv)"
      by (simp add: interval_after_Suc iv_def)
    have m0: "\<not> below_tolerance (f (midpoint_of (interval_after f 0 (l, r))))"
      using False by (simp add: interval_after_0 midpoint_of_def)
    have all_shift: "\<And>k. (\<forall>j<k. \<not> below_tolerance (f (midpoint_of (interval_after f j (fst iv, snd iv)))))
          \<Longrightarrow> (\<forall>j<Suc k. \<not> below_tolerance (f (midpoint_of (interval_after f j (l, r)))))"
    proof (intro allI impI)
      fix k j
      assume a: "\<forall>j<k. \<not> below_tolerance (f (midpoint_of (interval_after f j (fst iv, snd iv))))"
        and j: "j < Suc k"
      show "\<not> below_tolerance (f (midpoint_of (interval_after f j (l, r))))"
      proof (cases j)
        case 0
        with m0 show ?thesis by simp
      next
        case (Suc j')
        with j have "j' < k" by simp
        with a have "\<not> below_tolerance (f (midpoint_of (interval_after f j' (fst iv, snd iv))))"
          by blast
        then show ?thesis using Suc shift [of j'] by simp
      qed
    qed
    show ?thesis
    proof (cases "solver_loop f n (Suc i) (fst iv) (snd iv)")
      case (EarlyReturn i' jd)
      with Suc.IH [of "Suc i" "fst iv" "snd iv"]
      obtain k where k: "k < n" "i' = Suc i + k"
        "jd = midpoint_of (interval_after f k (fst iv, snd iv))" "below_tolerance (f jd)"
        "\<forall>j<k. \<not> below_tolerance (f (midpoint_of (interval_after f j (fst iv, snd iv))))"
        by auto
      have "Suc k < Suc n \<and> i' = i + Suc k
          \<and> jd = midpoint_of (interval_after f (Suc k) (l, r)) \<and> below_tolerance (f jd)
          \<and> (\<forall>j<Suc k. \<not> below_tolerance (f (midpoint_of (interval_after f j (l, r)))))"
        using k all_shift [OF k(5)] shift [of k] by simp
      then show ?thesis unfolding step EarlyReturn by simp blast
    next
      case (CapReturn jd)
      with Suc.IH [of "Suc i" "fst iv" "snd iv"]
      have c: "jd = midpoint_of (interval_after f n (fst iv, snd iv))"
        "\<forall>j<n. \<not> below_tolerance (f (midpoint_of (interval_after f j (fst iv, snd iv))))"
        by auto
      show ?thesis unfolding step CapReturn
        using c(1) all_shift [OF c(2)] shift [of n] by simp
    qed
  qed
qed

lemma solver_loop_early:
  "below_tolerance (f (float_midpoint l r)) \<Longrightarrow>
     solver_loop f (Suc n) i l r = EarlyReturn i (float_midpoint l r)"
  by (simp add: Let_def)

lemma solver_loop_left:
  "\<not> below_tolerance (f (float_midpoint l r)) \<Longrightarrow> float_less (f l) (f r) \<Longrightarrow>
     solver_loop f (Suc n) i l r = solver_loop f n (Suc i) l (float_midpoint l r)"
  by (simp add: Let_def)

lemma solver_loop_right:
  "\<not> below_tolerance (f (float_midpoint l r)) \<Longrightarrow> \<not> float_less (f l) (f r) \<Longrightarrow>
     solver_loop f (Suc n) i l r = solver_loop f n (Suc i) (float_midpoint l r) r"
  by (simp add: Let_def)

lemma hundred: "(100::nat) = Suc 99"
  by simp

declare solver_loop.simps(2) [simp del]

lemma left_end_0: "left_end l r 0 = l"
  by (simp add: left_end_def)

lemma left_end_Suc: "left_end l r (Suc k) = left_end (float_midpoint l r) r k"
  using funpow_swap1 [of "\<lambda>l. float_midpoint l r" k l] by (simp add: left_end_def)

lemma left_end_Suc': "left_end l r (Suc k) = float_midpoint (left_end l r k) r"
  by (simp add: left_end_def)

lemma solver_loop_all_unavailable:
  assumes "f r = None"
  shows "\<forall>k\<le>n. f (left_end l r k) = None \<Longrightarrow>
     solver_loop f n i l r = CapReturn (left_end l r (Suc n))"
proof (induction n arbitrary: i l)
  case 0
  then show ?case by (simp add: left_end_def)
next
  case (Suc n)
  let ?m = "float_midpoint l r"
  from Suc.prems have "f (left_end l r 0) = None" by blast
  then have fl: "f l = None" by (simp add: left_end_0)
  have "Suc 0 \<le> Suc n" by simp
  with Suc.prems have "f (left_end l r (Suc 0)) = None" by blast
  then have fm: "f ?m = None" by (simp add: left_end_Suc left_end_0)
  have rest: "\<forall>k\<le>n. f (left_end ?m r k) = None"
  proof (intro allI impI)
    fix k assume "k \<le> n"
    then have "Suc k \<le> Suc n" by simp
    with Suc.prems have "f (left_end l r (Suc k)) = None" by blast
    then show "f (left_end ?m r k) = None" by (simp add: left_end_Suc)
  qed
  have "solver_loop f (Suc n) i l r = solver_loop f n (Suc i) ?m r"
    by (rule solver_loop_right) (simp_all add: fl fm assms below_tolerance_def)
  also have "\<dots> = CapReturn (left_end ?m r (Suc n))"
    by (rule Suc.IH [OF rest])
  also have "left_end ?m r (Suc n) = left_end l r (Suc (Suc n))"
    by (simp only: left_end_Suc [symmetric])
  finally show ?case .
qed

lemma angle_difference_unavailable:
  "calculate_position p1 jd = None \<or> calculate_position p2 jd = None \<Longrightarrow>
     angle_difference_from_target calculate_position p1 p2 target jd = None"
  by (auto simp: angle_difference_from_target_def split: option.splits)

lemma tolerance_bounds:
  "1 / 16384 \<le> double_round (1 / 10000)" "double_round (1 / 10000) \<le> 1 / 8192"
proof -
  have a: "double_round (1 / 2 ^ 14) = 1 / 2 ^ 14" and b: "double_round (1 / 2 ^ 13) = 1 / 2 ^ 13"
    by (rule double_round_half_power)+
  have "double_round (1 / 2 ^ 14) \<le> double_round (1 / 10000)"
    by (rule double_round_mono) simp
  with a show "1 / 16384 \<le> double_round (1 / 10000)" by simp
  have "double_round (1 / 10000) \<le> double_round (1 / 2 ^ 13)"
    by (rule double_round_mono) simp
  with b show "double_round (1 / 10000) \<le> 1 / 8192" by simp
qed

lemma float_midpoint_zero_left: "float_midpoint 0 (1 / 2 ^ k) = 1 / 2 ^ Suc k"
proof -
  have "float_add 0 (1 / 2 ^ k) = 1 / 2 ^ k"
    by (simp add: float_add_def double_round_half_power)
  moreover have e: "(1 / 2 ^ k) / 2 = (1::real) / 2 ^ Suc k" by simp
  have "float_div (1 / 2 ^ k) 2 = 1 / 2 ^ Suc k"
    unfolding float_div_def e by (rule double_round_half_power)
  ultimately show ?thesis by (simp only: float_midpoint_def)
qed

lemma float_midpoint_zero_right: "float_midpoint (- (1 / 2 ^ k)) 0 = - (1 / 2 ^ Suc k)"
proof -
  have "float_add (- (1 / 2 ^ k)) 0 = - (1 / 2 ^ k)"
    by (simp add: float_add_def double_round_minus double_round_half_power)
  moreover have e: "(- (1 / 2 ^ k)) / 2 = - ((1::real) / 2 ^ Suc k)" by simp
  have "float_div (- (1 / 2 ^ k)) 2 = - (1 / 2 ^ Suc k)"
    unfolding float_div_def e by (simp only: double_round_minus double_round_half_power)
  ultimately show ?thesis by (simp only: float_midpoint_def)
qed

lemma left_end_zero_right: "left_end (- (1 / 2 ^ j)) 0 k = - (1 / 2 ^ (j + k))"
proof (induction k)
  case 0
  show ?case by (simp add: left_end_0)
next
  case (Suc k)
  show ?case unfolding left_end_Suc' Suc.IH by (simp only: float_midpoint_zero_right add_Suc_right)
qed

lemma solver_loop_pinned_zero:
  assumes "\<forall>x. x \<noteq> 0 \<longrightarrow> \<not> below_tolerance (f x) \<and> float_less (f 0) (f x)"
  shows "solver_loop f n i 0 (1 / 2 ^ k) = CapReturn (1 / 2 ^ (k + Suc n))"
proof (induction n arbitrary: i k)
  case 0
  show ?case by (simp add: float_midpoint_zero_left)
next
  case (Suc n)
  let ?m = "float_midpoint 0 (1 / 2 ^ k)"
  have m: "?m = 1 / 2 ^ Suc k" by (rule float_midpoint_zero_left)
  have ml: "?m \<noteq> 0" and rl: "(1::real) / 2 ^ k \<noteq> 0" unfolding m by simp_all
  from assms ml rl have nb: "\<not> below_tolerance (f ?m)" and fl: "float_less (f 0) (f (1 / 2 ^ k))"
    by blast+
  have "solver_loop f (Suc n) i 0 (1 / 2 ^ k) = solver_loop f n (Suc i) 0 ?m"
    using nb fl by (rule solver_loop_left)
  also have "\<dots> = CapReturn (1 / 2 ^ (Suc k + Suc n))"
    unfolding m by (rule Suc.IH)
  finally show ?case by simp
qed


lemma double_round_180: "double_round 180 = 180" and double_round_neg_180: "double_round (- 180) = - 180"
  using double_round_int [of 180] double_round_int [of "- 180"] by simp_all

lemma opposed_error:
  "angle_difference_from_target opposed_provider ''Sun'' ''Moon'' 180 jd = Some 0"
  by (simp add: angle_difference_from_target_def opposed_provider_def float_angular_distance_def
      float_sub_def double_round_neg_180 double_round_zero)

lemma tolerance_pos: "0 < double_round (1 / 10000)"
  using tolerance_bounds(1) by simp

lemma float_midpoint_unit: "float_midpoint 0 1 = 1 / 2"
  using float_midpoint_zero_left [of 0] by simp

lemma float_add_zero_one: "float_add 0 1 = 1"
  using double_round_int [of 1] by (simp add: float_add_def)

lemma solve_opposed: "solve opposed_provider ''Sun'' ''Moon'' 180 0 1 = EarlyReturn 0 (1 / 2)"
proof -
  let ?f = "angle_difference_from_target opposed_provider ''Sun'' ''Moon'' 180"
  have "solver_loop ?f (Suc 99) 0 0 1 = EarlyReturn 0 (float_midpoint 0 1)"
    by (rule solver_loop_early) (simp add: opposed_error below_tolerance_def tolerance_pos)
  then show ?thesis unfolding solve_def hundred float_add_zero_one float_midpoint_unit .
qed


lemma dip_values:
  "double_round (- (368639 / 2048)) = - (368639 / 2048)"
  "double_round (- (184319 / 1024)) = - (184319 / 1024)"
  "double_round (- 179) = - 179"
  "double_round (- (1 / 2048)) = - (1 / 2048)"
  "double_round (- (1 / 1024)) = - (1 / 1024)"
  "double_round (- 1) = - 1"
  using double_round_dyadic_div [of 368639 11] double_round_dyadic_div [of 184319 10]
    double_round_int [of 179] double_round_half_power [of 11] double_round_half_power [of 10]
    double_round_int [of 1]
  by (simp_all add: double_round_minus)

lemma dip_error:
  "angle_difference_from_target dip_provider ''Sun'' ''Moon'' 180 jd
     = Some (if jd = 0 then 1 / 2048 else if jd = 1 / 2 then 1 / 1024 else 1)"
  by (simp add: angle_difference_from_target_def dip_provider_def float_angular_distance_def
      float_sub_def dip_values)


lemma solver_unavailable_result:
  assumes "calculate_position planet1_code (float_add start_jd search_days) = None
           \<or> calculate_position planet2_code (float_add start_jd search_days) = None"
    and "\<forall>k\<le>100. calculate_position planet1_code (left_end start_jd (float_add start_jd search_days) k) = None
                  \<or> calculate_position planet2_code (left_end start_jd (float_add start_jd search_days) k) = None"
  shows "solve calculate_position planet1_code planet2_code target_angle start_jd search_days
           = CapReturn (left_end start_jd (float_add start_jd search_days) 101)"
proof -
  let ?f = "angle_difference_from_target calculate_position planet1_code planet2_code target_angle"
  let ?r = "float_add start_jd search_days"
  have r: "?f ?r = None" using assms(1) by (rule angle_difference_unavailable)
  have ks: "\<forall>k\<le>100. ?f (left_end start_jd ?r k) = None"
    using assms(2) by (simp add: angle_difference_unavailable)
  have "solver_loop ?f 100 0 start_jd ?r = CapReturn (left_end start_jd ?r (Suc 100))"
    by (rule solver_loop_all_unavailable [OF r ks])
  then show ?thesis by (simp add: solve_def)
qed

lemma float_add_cancel: "float_add (- x) x = 0"
  by (simp add: float_add_def double_round_zero)

lemma solve_unavailable_unit:
  "solve unavailable_provider ''Sun'' ''Moon'' 90 (- 1) 1 = CapReturn (- (1 / 2 ^ 101))"
proof -
  have "solve unavailable_provider ''Sun'' ''Moon'' 90 (- 1) 1
          = CapReturn (left_end (- 1) (float_add (- 1) 1) 101)"
    by (rule solver_unavailable_result) (simp_all add: unavailable_provider_def)
  also have "left_end (- 1) (float_add (- 1) 1) 101 = - (1 / 2 ^ 101)"
    using left_end_zero_right [of 0 101] by (simp add: float_add_cancel)
  finally show ?thesis .
qed

section \<open>Properties of the deduplication window\<close>

lemma deduplicate_single: "deduplicate_aspects catalog m [a] = Inr [a]"
  by (simp add: deduplicate_aspects_def dedup_step_def Let_def)

lemma track_first:
  "map_of catalog (aspect a) = Some t \<Longrightarrow>
     track_aspect catalog ([], ex) d a
       = Inr ([(aspect_key_of a, \<lparr>best_precision = \<bar>angle a - t\<bar>, best_aspect = a,
                                  last_seen = d\<rparr>)], ex)"
  by (simp add: track_aspect_def Let_def)

lemma track_open:
  assumes "map_of catalog (aspect a) = Some t" and "aspect_key_of a = k"
  shows "track_aspect catalog ([(k, w)], ex) d a =
     (if \<bar>angle a - t\<bar> < best_precision w then
        Inr ([(k, \<lparr>best_precision = \<bar>angle a - t\<bar>, best_aspect = a, last_seen = d\<rparr>)], ex)
      else if d - last_seen w > 30 then
        Inr ([(k, \<lparr>best_precision = \<bar>angle a - t\<bar>, best_aspect = a, last_seen = d\<rparr>)],
             ex @ [best_aspect w])
      else Inr ([(k, w)], ex))"
  using assms by (simp add: track_aspect_def Let_def)

lemma track_cluster:
  assumes "\<forall>a\<in>set cands. aspect_key_of a = k \<and> map_of catalog (aspect a) = Some t"
    and "\<forall>a\<in>set cands. date a - last_seen w \<le> 30"
    and "\<forall>a\<in>set cands. \<forall>b\<in>set cands. date a - date b \<le> 30"
    and "best_precision w = \<bar>angle (best_aspect w) - t\<bar>"
  shows "\<exists>w'. track_aspects catalog ([(k, w)], ex) cands = Inr ([(k, w')], ex)
           \<and> best_aspect w' \<in> insert (best_aspect w) (set cands)
           \<and> best_precision w' = \<bar>angle (best_aspect w') - t\<bar>
           \<and> best_precision w' \<le> best_precision w
           \<and> (\<forall>a\<in>set cands. best_precision w' \<le> \<bar>angle a - t\<bar>)"
  using assms
proof (induction cands arbitrary: w)
  case Nil
  then show ?case by simp
next
  case (Cons a cands)
  have ka: "aspect_key_of a = k" and ta: "map_of catalog (aspect a) = Some t"
    using Cons.prems(1) by simp_all
  have rest: "\<forall>a\<in>set cands. aspect_key_of a = k \<and> map_of catalog (aspect a) = Some t"
    using Cons.prems(1) by simp
  have pw: "\<forall>a\<in>set cands. \<forall>b\<in>set cands. date a - date b \<le> 30"
    using Cons.prems(3) by simp
  have gap: "\<not> date a - last_seen w > 30" using Cons.prems(2) by simp
  show ?case
  proof (cases "\<bar>angle a - t\<bar> < best_precision w")
    case True
    let ?w = "\<lparr>best_precision = \<bar>angle a - t\<bar>, best_aspect = a, last_seen = date a\<rparr>"
    have step: "track_aspect catalog ([(k, w)], ex) (date a) a = Inr ([(k, ?w)], ex)"
      using True by (simp add: track_open [OF ta ka])
    have g: "\<forall>b\<in>set cands. date b - last_seen ?w \<le> 30" using Cons.prems(3) by simp
    from Cons.IH [OF rest g pw, of ] obtain w' where
      w': "track_aspects catalog ([(k, ?w)], ex) cands = Inr ([(k, w')], ex)"
        "best_aspect w' \<in> insert (best_aspect ?w) (set cands)"
        "best_precision w' = \<bar>angle (best_aspect w') - t\<bar>"
        "best_precision w' \<le> best_precision ?w"
        "\<forall>a\<in>set cands. best_precision w' \<le> \<bar>angle a - t\<bar>"
      by auto
    show ?thesis
      using w' True step by (intro exI [of _ w']) auto
  next
    case False
    have step: "track_aspect catalog ([(k, w)], ex) (date a) a = Inr ([(k, w)], ex)"
      using False gap by (simp add: track_open [OF ta ka])
    have g: "\<forall>b\<in>set cands. date b - last_seen w \<le> 30" using Cons.prems(2) by simp
    from Cons.IH [OF rest g pw Cons.prems(4)] obtain w' where
      w': "track_aspects catalog ([(k, w)], ex) cands = Inr ([(k, w')], ex)"
        "best_aspect w' \<in> insert (best_aspect w) (set cands)"
        "best_precision w' = \<bar>angle (best_aspect w') - t\<bar>"
        "best_precision w' \<le> best_precision w"
        "\<forall>a\<in>set cands. best_precision w' \<le> \<bar>angle a - t\<bar>"
      by auto
    show ?thesis
      using w' False step by (intro exI [of _ w']) auto
  qed
qed

lemma aspect_of_key: "aspect_key_of a = k \<Longrightarrow> aspect a = snd k"
  by (auto simp: aspect_key_of_def)

text \<open>
  A non-empty sequence of candidates of one key, pairwise within 30 days of each other,
  with the aspect in the catalog, produces exactly one event. It is a candidate of the
  sequence whose \<open>angle_precision\<close> (line 591) is minimal among the sequence, and that
  quantity is never negative. For every aspect but Gann74 the recorded angle is the short
  arc and the matcher tests it against the catalog angle, so \<open>angle_precision\<close> is the
  candidate's angular error; for Gann74 it is not (theorem
  \<open>gann74_window_keeps_orb_edge\<close>).
\<close>

lemma single_cluster_least_precision:
  assumes "candidates \<noteq> []"
    and "\<forall>a\<in>set candidates. aspect_key_of a = k"
    and "map_of catalog (snd k) = Some target_angle"
    and "\<forall>a\<in>set candidates. \<forall>b\<in>set candidates. \<bar>date a - date b\<bar> \<le> 30"
  shows "\<exists>c. commit_candidates catalog min_days_between_aspects candidates = Inr [c]
           \<and> c \<in> set candidates
           \<and> 0 \<le> angle_precision target_angle c
           \<and> (\<forall>a\<in>set candidates. angle_precision target_angle c \<le> angle_precision target_angle a)"
proof -
  from assms(1) obtain a rest where c: "candidates = a # rest" by (cases candidates) auto
  have keys: "\<forall>b\<in>set candidates. aspect_key_of b = k \<and> map_of catalog (aspect b) = Some target_angle"
    using assms(2,3) aspect_of_key by metis
  let ?w = "\<lparr>best_precision = \<bar>angle a - target_angle\<bar>, best_aspect = a, last_seen = date a\<rparr>"
  have first: "track_aspect catalog ([], []) (date a) a = Inr ([(k, ?w)], [])"
    using keys c track_first [of catalog a target_angle "[]" "date a"] by simp
  have r1: "\<forall>b\<in>set rest. aspect_key_of b = k \<and> map_of catalog (aspect b) = Some target_angle"
    using keys c by simp
  have pw: "\<forall>x\<in>set candidates. \<forall>y\<in>set candidates. date x - date y \<le> 30"
  proof (intro ballI)
    fix x y assume "x \<in> set candidates" "y \<in> set candidates"
    with assms(4) have "\<bar>date x - date y\<bar> \<le> 30" by blast
    then show "date x - date y \<le> 30" by linarith
  qed
  have r2: "\<forall>b\<in>set rest. date b - last_seen ?w \<le> 30" using pw c by simp
  have r3: "\<forall>x\<in>set rest. \<forall>y\<in>set rest. date x - date y \<le> 30" using pw c by simp
  have r4: "best_precision ?w = \<bar>angle (best_aspect ?w) - target_angle\<bar>" by simp
  from track_cluster [OF r1 r2 r3 r4, of "[]"] obtain w' where
    w': "track_aspects catalog ([(k, ?w)], []) rest = Inr ([(k, w')], [])"
      "best_aspect w' \<in> insert (best_aspect ?w) (set rest)"
      "best_precision w' = \<bar>angle (best_aspect w') - target_angle\<bar>"
      "best_precision w' \<le> best_precision ?w"
      "\<forall>b\<in>set rest. best_precision w' \<le> \<bar>angle b - target_angle\<bar>"
    by blast
  have run: "track_aspects catalog ([], []) candidates = Inr ([(k, w')], [])"
    using first w'(1) c by simp
  have out: "commit_candidates catalog min_days_between_aspects candidates = Inr [best_aspect w']"
    by (simp add: commit_candidates_def run flush_windows_def deduplicate_single)
  have mem: "best_aspect w' \<in> set candidates" using w'(2) c by auto
  have least: "\<forall>b\<in>set candidates. angle_precision target_angle (best_aspect w')
      \<le> angle_precision target_angle b"
    using w'(3,4,5) c by (auto simp: angle_precision_def)
  have "0 \<le> angle_precision target_angle (best_aspect w')" by (simp add: angle_precision_def)
  with out mem least show ?thesis by blast
qed

lemma key_conj: "aspect_key_of (conjunction_at d s) = ((''Jupiter'', ''Saturn''), ''Conjunction'')"
  by (simp add: aspect_key_of_def conjunction_at_def sorted_pair_def)

lemma catalog_conj: "map_of aspects_catalog (aspect (conjunction_at d s)) = Some 0"
  by (simp add: aspects_catalog_def conjunction_at_def)

lemma conj_fields: "date (conjunction_at d s) = d" "angle (conjunction_at d s) = s"
  by (simp_all add: conjunction_at_def)

lemmas track_first_conj = track_first [OF catalog_conj]

lemmas track_open_conj = track_open [OF catalog_conj key_conj]

lemma single_cluster_example:
  "commit_candidates aspects_catalog 14
       [conjunction_at 0 (1 / 2), conjunction_at 1 (1 / 10), conjunction_at 2 (3 / 10)]
     = Inr [conjunction_at 1 (1 / 10)]"
proof -
  let ?k = "((''Jupiter'', ''Saturn''), ''Conjunction'')"
  let ?cs = "[conjunction_at 0 (1 / 2), conjunction_at 1 (1 / 10), conjunction_at 2 (3 / 10)]"
  have k: "\<forall>a\<in>set ?cs. aspect_key_of a = ?k" by (simp add: key_conj)
  have t: "map_of aspects_catalog (snd ?k) = Some 0" by (simp add: aspects_catalog_def)
  have d: "\<forall>a\<in>set ?cs. \<forall>b\<in>set ?cs. \<bar>date a - date b\<bar> \<le> 30" by (simp add: conj_fields)
  from single_cluster_least_precision [OF _ k t d, where min_days_between_aspects = 14]
  obtain c where c: "commit_candidates aspects_catalog 14 ?cs = Inr [c]" "c \<in> set ?cs"
    "\<forall>a\<in>set ?cs. angle_precision 0 c \<le> angle_precision 0 a"
    by auto
  from c(3) have "angle_precision 0 c \<le> 1 / 10" by (simp add: angle_precision_def conj_fields)
  with c(2) have "c = conjunction_at 1 (1 / 10)"
    by (auto simp: angle_precision_def conj_fields)
  with c(1) show ?thesis by simp
qed

text \<open>
  Two candidates 100 days apart, the second more precise: the second replaces the best
  of the window that the first opened.
\<close>

lemma merged_clusters_single_event:
  "commit_candidates aspects_catalog 14 [conjunction_at 0 (1 / 2), conjunction_at 100 (1 / 5)]
     = Inr [conjunction_at 100 (1 / 5)]"
proof -
  let ?k = "((''Jupiter'', ''Saturn''), ''Conjunction'')"
  let ?c1 = "conjunction_at 0 (1 / 2)" and ?c2 = "conjunction_at 100 (1 / 5)"
  let ?w1 = "\<lparr>best_precision = 1 / 2, best_aspect = ?c1, last_seen = 0\<rparr>"
  let ?w2 = "\<lparr>best_precision = 1 / 5, best_aspect = ?c2, last_seen = 100\<rparr>"
  have s1: "track_aspect aspects_catalog ([], []) (date ?c1) ?c1 = Inr ([(?k, ?w1)], [])"
    by (simp add: track_first_conj conj_fields key_conj)
  have s2: "track_aspect aspects_catalog ([(?k, ?w1)], []) (date ?c2) ?c2 = Inr ([(?k, ?w2)], [])"
    by (simp add: track_open_conj conj_fields)
  have "track_aspects aspects_catalog ([], []) [?c1, ?c2] = Inr ([(?k, ?w2)], [])"
    by (simp add: s1 s2)
  then show ?thesis
    by (simp add: commit_candidates_def flush_windows_def deduplicate_single)
qed

text \<open>
  The same two dates with the errors exchanged: the later candidate is not more precise,
  line 602 closes the window, and both events are committed.
\<close>

lemma separated_clusters_two_events:
  "commit_candidates aspects_catalog 14 [conjunction_at 0 (1 / 5), conjunction_at 100 (1 / 2)]
     = Inr [conjunction_at 0 (1 / 5), conjunction_at 100 (1 / 2)]"
proof -
  let ?k = "((''Jupiter'', ''Saturn''), ''Conjunction'')"
  let ?c1 = "conjunction_at 0 (1 / 5)" and ?c2 = "conjunction_at 100 (1 / 2)"
  let ?w1 = "\<lparr>best_precision = 1 / 5, best_aspect = ?c1, last_seen = 0\<rparr>"
  let ?w2 = "\<lparr>best_precision = 1 / 2, best_aspect = ?c2, last_seen = 100\<rparr>"
  have s1: "track_aspect aspects_catalog ([], []) (date ?c1) ?c1 = Inr ([(?k, ?w1)], [])"
    by (simp add: track_first_conj conj_fields key_conj)
  have s2: "track_aspect aspects_catalog ([(?k, ?w1)], []) (date ?c2) ?c2
      = Inr ([(?k, ?w2)], [?c1])"
    by (simp add: track_open_conj conj_fields)
  have t: "track_aspects aspects_catalog ([], []) [?c1, ?c2] = Inr ([(?k, ?w2)], [?c1])"
    by (simp add: s1 s2)
  have srt: "sort_key date [?c1, ?c2] = [?c1, ?c2]" by (simp add: conj_fields)
  have sp: "sorted_pair ''Jupiter'' ''Saturn'' = (''Jupiter'', ''Saturn'')"
    by (simp add: sorted_pair_def)
  have d1: "dedup_step aspects_catalog 14 ([], Map.empty) ?c1
      = Inr ([?c1], [?k \<mapsto> (0, 1 / 5)])"
    by (simp add: dedup_step_def Let_def conjunction_at_def sp)
  have d2: "dedup_step aspects_catalog 14 ([?c1], [?k \<mapsto> (0, 1 / 5)]) ?c2
      = Inr ([?c1, ?c2], [?k \<mapsto> (100, 1 / 2)])"
    by (simp add: dedup_step_def Let_def conjunction_at_def sp)
  have dd: "deduplicate_aspects aspects_catalog 14 [?c1, ?c2] = Inr [?c1, ?c2]"
    unfolding deduplicate_aspects_def srt by (simp add: d1 d2)
  show ?thesis unfolding commit_candidates_def t by (simp add: flush_windows_def dd)
qed

section \<open>Properties of the scan\<close>

text \<open>
  Line 222 is the first statement of the loop body and raises at every instant, so the
  scan raises TypeError when its range holds an instant and returns the empty list when
  it holds none. In particular it always returns.
\<close>

lemma scan_instant_raises: "scan_instant calculate_position current_jd = Inl TypeError"
  by (simp add: scan_instant_def datetime_call_def)

lemma scan_loop_result:
  "scan_loop calculate_position start_jd end_jd step_jd current_jd found_aspects
     = Some (if current_jd \<le> end_jd then Inl TypeError else Inr found_aspects)"
  by (subst scan_loop.simps) (simp add: scan_instant_raises)

lemma scan_for_aspects_result:
  "scan_for_aspects calculate_position start_jd end_jd step_hours
     = Some (if start_jd \<le> end_jd then Inl TypeError else Inr [])"
  by (simp add: scan_for_aspects_def scan_loop_result)



text \<open>
  C9 at a failing input. The scan of one day from jd 2451545 in steps of 3 hours, with a
  provider that has no longitude at any instant, raises TypeError: line 222 calls the
  module \<^verbatim>\<open>datetime\<close> at the first instant. No position is looked up and no list is
  returned. Lemma \<open>scan_for_aspects_result\<close> has every provider and every range that
  holds an instant.
\<close>

theorem scan_raises_type_error:
  "scan_for_aspects unavailable_provider 2451545 2451546 3 = Some (Inl TypeError)"
  by (simp add: scan_for_aspects_result)


lemma left_end_half: "left_end (- (1 / 2)) 0 101 = - (1 / 2 ^ 102)"
  using left_end_zero_right [of 1 101] by simp

lemma float_add_cancel_half: "float_add (- (1 / 2)) (1 / 2) = 0"
  by (simp add: float_add_def double_round_zero)



section \<open>Properties of the exact-date scan\<close>

lemma find_aspects_date:
  "\<forall>a\<in>set (find_aspects_for_date catalog orb planet_names hlon d). date a = d"
  by (auto simp: find_aspects_for_date_def Let_def)

lemma track_found_eq:
  "\<forall>a\<in>set found. date a = d \<Longrightarrow>
     track_found catalog st d found = track_aspects catalog st found"
  by (induction found arbitrary: st) (auto split: sum.splits)

lemma track_aspects_append:
  "track_aspects catalog st (xs @ ys) =
     (case track_aspects catalog st xs of
        Inl e \<Rightarrow> Inl e
      | Inr st' \<Rightarrow> track_aspects catalog st' ys)"
  by (induction xs arbitrary: st) (auto split: sum.splits)

lemma scan_dates_Suc:
  "scan_dates start step (Suc n) = start # scan_dates (start + step) step n"
proof -
  have "[0..<Suc n] = 0 # map Suc [0..<n]" by (simp add: upt_conv_Cons map_Suc_upt)
  then have "scan_dates start step (Suc n)
      = start # map (\<lambda>k. start + real (Suc k) * step) [0..<n]"
    by (simp add: scan_dates_def comp_def del: upt_Suc)
  also have "map (\<lambda>k. start + real (Suc k) * step) [0..<n]
      = map (\<lambda>k. (start + step) + real k * step) [0..<n]"
    by (simp add: algebra_simps)
  finally show ?thesis by (simp add: scan_dates_def)
qed

lemma exact_loop_candidates:
  assumes "\<forall>k<n. current_date + real k * step \<le> end"
    and "\<not> current_date + real n * step \<le> end"
  shows "exact_loop catalog orb planet_names hlon end step current_date st
     = Some (track_aspects catalog st
         (concat (map (find_aspects_for_date catalog orb planet_names hlon)
            (scan_dates current_date step n))))"
  using assms
proof (induction n arbitrary: current_date st)
  case 0
  then show ?case by (subst exact_loop.simps) (simp add: scan_dates_def)
next
  case (Suc n)
  let ?found = "find_aspects_for_date catalog orb planet_names hlon current_date"
  from Suc.prems(1) have "current_date + real 0 * step \<le> end" by blast
  then have le: "current_date \<le> end" by simp
  have a1: "\<forall>k<n. (current_date + step) + real k * step \<le> end"
  proof (intro allI impI)
    fix k assume "k < n"
    then have "Suc k < Suc n" by simp
    with Suc.prems(1) have "current_date + real (Suc k) * step \<le> end" by blast
    then show "(current_date + step) + real k * step \<le> end" by (simp add: algebra_simps)
  qed
  have a2: "\<not> (current_date + step) + real n * step \<le> end"
    using Suc.prems(2) by (simp add: algebra_simps)
  have tf: "track_found catalog st current_date ?found = track_aspects catalog st ?found"
    by (rule track_found_eq) (rule find_aspects_date)
  show ?case
  proof (cases "track_aspects catalog st ?found")
    case (Inl e)
    then show ?thesis
      by (subst exact_loop.simps) (simp add: le tf scan_dates_Suc track_aspects_append)
  next
    case (Inr st')
    then show ?thesis
      by (subst exact_loop.simps)
         (simp add: le tf scan_dates_Suc track_aspects_append Suc.IH [OF a1 a2])
  qed
qed

text \<open>
  When the scan makes \<open>n\<close> steps, \<^verbatim>\<open>find_exact_aspect_dates\<close> returns what
  \<open>commit_candidates\<close> computes from the aspects found at the \<open>n\<close> dates, in scan
  order.
\<close>

lemma find_exact_aspect_dates_commit:
  assumes "\<forall>k<n. start + real k * (precision_hours / 24) \<le> end"
    and "\<not> start + real n * (precision_hours / 24) \<le> end"
  shows "find_exact_aspect_dates catalog orb min_days_between_aspects planet_names hlon start end
           precision_hours
     = Some (commit_candidates catalog min_days_between_aspects
         (concat (map (find_aspects_for_date catalog orb planet_names hlon)
            (scan_dates start (precision_hours / 24) n))))"
  unfolding find_exact_aspect_dates_def commit_candidates_def
    exact_loop_candidates [OF assms]
  by (simp split: sum.splits)

lemma pairs_jupiter_saturn:
  "planet_pairs_of [''Jupiter'', ''Saturn''] = [(''Jupiter'', ''Saturn'')]"
  by simp

lemma two_pass_found:
  "find_aspects_for_date aspects_catalog 1 [''Jupiter'', ''Saturn''] two_pass_ephemeris 0
     = [conjunction_at 0 (1 / 2)]"
  "find_aspects_for_date aspects_catalog 1 [''Jupiter'', ''Saturn''] two_pass_ephemeris 50 = []"
  "find_aspects_for_date aspects_catalog 1 [''Jupiter'', ''Saturn''] two_pass_ephemeris 100
     = [conjunction_at 100 (1 / 5)]"
  by (simp_all add: find_aspects_for_date_def two_pass_ephemeris_def
      calculate_angle_between_planets_def aspects_catalog_def conjunction_at_def Let_def)

lemma three_dates: "scan_dates 0 50 3 = [0, 50, 100]"
  by (simp add: scan_dates_def upt_conv_Cons)

text \<open>
  C1 at a failing input. Jupiter and Saturn, scanned from day 0 to day 100 in steps of
  50 days, are in conjunction on day 0 (0.5 degrees apart) and on day 100 (0.2 degrees
  apart) and 10 degrees apart in between: two clusters of one candidate each, 100 days
  apart. One event is returned, not two: the day-100 candidate is more precise, so line
  598 takes it as the new best of the expired window before line 602 can close that
  window, and the day-0 event is never saved.
\<close>

theorem expired_window_absorbs_candidate:
  "find_exact_aspect_dates aspects_catalog 1 14 [''Jupiter'', ''Saturn''] two_pass_ephemeris
       0 100 1200
     = Some (Inr [conjunction_at 100 (1 / 5)])"
proof -
  have s: "(1200::real) / 24 = 50" by simp
  have b1: "\<forall>k<3. (0::real) + real k * (1200 / 24) \<le> 100"
  proof (intro allI impI)
    fix k :: nat assume "k < 3"
    then have "k = 0 \<or> k = 1 \<or> k = 2" by auto
    then show "(0::real) + real k * (1200 / 24) \<le> 100" by auto
  qed
  have b2: "\<not> (0::real) + real (3::nat) * (1200 / 24) \<le> 100" by simp
  show ?thesis
    unfolding find_exact_aspect_dates_commit [OF b1 b2] s three_dates
    by (simp add: two_pass_found merged_clusters_single_event)
qed


lemma key_gann: "aspect_key_of (gann74_at d a) = ((''Jupiter'', ''Saturn''), ''Gann74'')"
  by (simp add: aspect_key_of_def gann74_at_def sorted_pair_def)

lemma catalog_gann: "map_of aspects_catalog (aspect (gann74_at d a)) = Some 74"
  by (simp add: aspects_catalog_def gann74_at_def)

lemma gann_fields: "date (gann74_at d a) = d" "angle (gann74_at d a) = a"
  by (simp_all add: gann74_at_def)

lemmas track_first_gann = track_first [OF catalog_gann]

lemmas track_open_gann = track_open [OF catalog_gann key_gann]

lemma reflex_found:
  "find_aspects_for_date aspects_catalog 1 [''Jupiter'', ''Saturn''] reflex_ephemeris 0
     = [gann74_at 0 (1141 / 4)]"
  "find_aspects_for_date aspects_catalog 1 [''Jupiter'', ''Saturn''] reflex_ephemeris 1
     = [gann74_at 1 286]"
  "find_aspects_for_date aspects_catalog 1 [''Jupiter'', ''Saturn''] reflex_ephemeris 2
     = [gann74_at 2 (1147 / 4)]"
  by (simp_all add: find_aspects_for_date_def reflex_ephemeris_def
      calculate_angle_between_planets_def aspects_catalog_def gann74_at_def Let_def)

lemma reflex_dates: "scan_dates 0 1 3 = [0, 1, 2]"
  by (simp add: scan_dates_def upt_conv_Cons)

lemma reflex_cluster:
  "commit_candidates aspects_catalog 14
       [gann74_at 0 (1141 / 4), gann74_at 1 286, gann74_at 2 (1147 / 4)]
     = Inr [gann74_at 0 (1141 / 4)]"
proof -
  let ?k = "((''Jupiter'', ''Saturn''), ''Gann74'')"
  let ?c0 = "gann74_at 0 (1141 / 4)" and ?c1 = "gann74_at 1 286"
    and ?c2 = "gann74_at 2 (1147 / 4)"
  let ?w = "\<lparr>best_precision = 845 / 4, best_aspect = ?c0, last_seen = 0\<rparr>"
  have s0: "track_aspect aspects_catalog ([], []) (date ?c0) ?c0 = Inr ([(?k, ?w)], [])"
    by (simp add: track_first_gann gann_fields key_gann)
  have s1: "track_aspect aspects_catalog ([(?k, ?w)], []) (date ?c1) ?c1 = Inr ([(?k, ?w)], [])"
    by (simp add: track_open_gann gann_fields)
  have s2: "track_aspect aspects_catalog ([(?k, ?w)], []) (date ?c2) ?c2 = Inr ([(?k, ?w)], [])"
    by (simp add: track_open_gann gann_fields)
  have "track_aspects aspects_catalog ([], []) [?c0, ?c1, ?c2] = Inr ([(?k, ?w)], [])"
    by (simp add: s0 s1 s2)
  then show ?thesis
    by (simp add: commit_candidates_def flush_windows_def deduplicate_single)
qed

text \<open>
  C2 at a failing input. Jupiter and Saturn are scanned on days 0, 1 and 2; the long arc
  between them is 285.25, 286 and 286.75 degrees. The matcher (line 430) tests the long
  arc against 360 - 74 = 286 and finds Gann74 on each day, with errors 0.75, 0 and 0.75
  degrees, and line 484 records the long arc. The three candidates have one key and lie
  within 2 days. One event is returned, the day-0 candidate, whose error is 0.75 degrees;
  the day-1 candidate, which is exact, is dropped. Line 591 measures the recorded long
  arc against 74, without the reflex of line 430, so its precisions are 211.25, 212 and
  212.75 and the first candidate stays the best of the window.
\<close>

theorem gann74_window_keeps_orb_edge:
  "find_exact_aspect_dates aspects_catalog 1 14 [''Jupiter'', ''Saturn''] reflex_ephemeris 0 2 24
     = Some (Inr [gann74_at 0 (1141 / 4)])
   \<and> concat (map (find_aspects_for_date aspects_catalog 1 [''Jupiter'', ''Saturn''] reflex_ephemeris)
        [0, 1, 2])
     = [gann74_at 0 (1141 / 4), gann74_at 1 286, gann74_at 2 (1147 / 4)]
   \<and> \<bar>angle (gann74_at 0 (1141 / 4)) - (360 - 74)\<bar> = 3 / 4
   \<and> \<bar>angle (gann74_at 1 286) - (360 - 74)\<bar> = 0"
proof -
  have s: "(24::real) / 24 = 1" by simp
  have b1: "\<forall>k<3. (0::real) + real k * (24 / 24) \<le> 2"
  proof (intro allI impI)
    fix k :: nat assume "k < 3"
    then have "k = 0 \<or> k = 1 \<or> k = 2" by auto
    then show "(0::real) + real k * (24 / 24) \<le> 2" by auto
  qed
  have b2: "\<not> (0::real) + real (3::nat) * (24 / 24) \<le> 2" by simp
  have c: "concat (map (find_aspects_for_date aspects_catalog 1 [''Jupiter'', ''Saturn'']
        reflex_ephemeris) [0, 1, 2])
     = [gann74_at 0 (1141 / 4), gann74_at 1 286, gann74_at 2 (1147 / 4)]"
    by (simp add: reflex_found)
  have "find_exact_aspect_dates aspects_catalog 1 14 [''Jupiter'', ''Saturn''] reflex_ephemeris
      0 2 24 = Some (Inr [gann74_at 0 (1141 / 4)])"
    unfolding find_exact_aspect_dates_commit [OF b1 b2] s reflex_dates c reflex_cluster ..
  with c show ?thesis by (simp add: gann_fields)
qed

end
